theory Spec2Isabelle
  imports Main "HOL-Library.Char_ord" "HOL-Library.List_Lexorder" "HOL-Library.Multiset"
begin

section \<open>Data model of proxy/envoy/config.go\<close>

text \<open>
  The embedding follows \<^verbatim>\<open>proxy/envoy/config.go\<close>. That file builds Envoy
  listeners, clusters and routes out of values whose Go types are declared in
  other packages (\<^verbatim>\<open>model\<close>, \<^verbatim>\<open>proxyconfig\<close>, the resource
  types of package \<^verbatim>\<open>envoy\<close>) and with helper functions that live in
  other files. The records below carry the fields that config.go reads or writes.
  Whatever else such a value holds is kept in one field of the type variable
  \<open>'x\<close>, the type of all data this file never looks into. Helper functions and
  named constants that are declared elsewhere are parameters of the embedding.
\<close>

subsection \<open>Protocols, ports, services\<close>

text \<open>
  \<^verbatim>\<open>model.Protocol\<close> is a string type. config.go switches on five of its
  constants; every other string takes the \<^verbatim>\<open>default\<close> branch.
\<close>

datatype Protocol =
    ProtocolGRPC | ProtocolHTTPS | ProtocolHTTP2 | ProtocolHTTP | ProtocolTCP
  | ProtocolOther string

record 'x Port =
  Port :: int
  Protocol :: Protocol
  Port_rest :: 'x

record 'x Service =
  Hostname :: string
  Service_Address :: string
  Ports :: "'x Port list"
  Service_rest :: 'x

record 'x RouteRule =
  Destination :: string
  WebsocketUpgrade :: bool
  RouteRule_rest :: 'x

text \<open>
  \<^verbatim>\<open>model.ServiceInstance\<close> with its \<^verbatim>\<open>Endpoint\<close>. The pointers
  \<^verbatim>\<open>ServicePort\<close> and \<^verbatim>\<open>Service\<close> are dereferenced without a check in
  config.go; the model takes them as set.
\<close>

record 'x NetworkEndpoint =
  Endpoint_Address :: string
  Endpoint_Port :: int
  ServicePort :: "'x Port"

record 'x ServiceInstance =
  Endpoint :: "'x NetworkEndpoint"
  Service :: "'x Service"
  ServiceInstance_rest :: 'x

subsection \<open>Mesh configuration, node, environment\<close>

text \<open>
  \<^verbatim>\<open>ProxyMeshConfig_AuthPolicy\<close> is a protobuf enum, an \<^verbatim>\<open>int32\<close> in
  Go: values other than the two named ones can be stored in it.
\<close>

datatype AuthPolicy =
    ProxyMeshConfig_NONE | ProxyMeshConfig_MUTUAL_TLS | ProxyMeshConfig_AuthPolicy_other int

text \<open>
  The ports of the mesh configuration are \<^verbatim>\<open>int32\<close>. config.go compares them
  with 0, widens them to \<^verbatim>\<open>int\<close> and prints them; it does no arithmetic on
  them, so they are modelled by their integer value. The two durations are
  pointers to protobuf messages, handed on to helpers only.
\<close>

record 'x ProxyMeshConfig =
  ProxyAdminPort :: int
  DiscoveryAddress :: string
  ConnectTimeout :: "'x option"
  DiscoveryRefreshDelay :: "'x option"
  StatsdUdpAddress :: string
  ZipkinAddress :: string
  MixerAddress :: string
  EgressProxyAddress :: string
  ProxyListenPort :: int
  ProxyHttpPort :: int
  AuthPolicy :: AuthPolicy
  AuthCertsPath :: string
  ProxyMeshConfig_rest :: 'x

datatype NodeType = Sidecar | Ingress | Egress | NodeType_other string

record 'x Node =
  Node_Type :: NodeType
  IPAddress :: string
  Domain :: string
  Node_rest :: 'x

text \<open>
  \<^verbatim>\<open>proxy.Environment\<close>: the queries of the service discovery and of the
  configuration store that config.go calls, and the mesh configuration.
\<close>

record 'x IstioConfigStore =
  RouteRulesBySource :: "'x ServiceInstance list \<Rightarrow> 'x RouteRule list"
  RouteRulesByDestination :: "'x ServiceInstance list \<Rightarrow> 'x RouteRule list"

record 'x Environment =
  HostInstances :: "(string \<rightharpoonup> bool) \<Rightarrow> 'x ServiceInstance list"
  Services :: "'x Service list"
  ManagementPorts :: "string \<Rightarrow> 'x Port list"
  IstioConfigStore :: "'x IstioConfigStore"
  Mesh :: "'x ProxyMeshConfig"

subsection \<open>Clusters and routes\<close>

record Host =
  URL :: string

record 'x Cluster =
  ServiceName :: string
  Type :: string
  Hosts :: "Host list"
  Cluster_rest :: 'x

record 'x HTTPRoute =
  HostRewrite :: string
  route_clusters :: "'x Cluster list"
  OpaqueConfig :: "'x option"
  HTTPRoute_rest :: 'x

text \<open>
  \<^verbatim>\<open>HTTPRouteConfigs\<close> is a Go map from port to \<^verbatim>\<open>*HTTPRouteConfig\<close>. It
  is kept as an association list with distinct keys, so that it can be ranged
  over.
\<close>

record 'x VirtualHost =
  VirtualHost_Name :: string
  Domains :: "string list"
  Routes :: "'x HTTPRoute list"

record 'x HTTPRouteConfig =
  VirtualHosts :: "'x VirtualHost list"

type_synonym 'x HTTPRouteConfigs = "(int \<times> 'x HTTPRouteConfig) list"

record 'x TCPRouteConfig =
  TCPRouteConfig_Routes :: "'x list"

subsection \<open>Listeners and filters\<close>

text \<open>
  The \<^verbatim>\<open>Config\<close> field of a filter is an \<^verbatim>\<open>interface{}\<close>. config.go puts
  into it the values it builds itself and values returned by helpers.
\<close>

datatype 'x HTTPFilterCfg = FilterRouterConfig | HTTPFilterCfg_other 'x

record 'x HTTPFilter =
  HTTPFilter_Type :: string
  HTTPFilter_Name :: string
  HTTPFilter_Config :: "'x HTTPFilterCfg"

record AccessLog =
  Path :: string

record HTTPFilterTraceConfig =
  OperationName :: string

record RDS =
  RDS_Cluster :: string
  RouteConfigName :: string
  RDS_RefreshDelayMs :: int

record 'x HTTPFilterConfig =
  CodecType :: string
  GenerateRequestID :: bool
  UseRemoteAddress :: bool
  StatPrefix :: string
  AccessLog :: "AccessLog list"
  HTTPFilterConfig_Filters :: "'x HTTPFilter list"
  HTTPFilterConfig_Tracing :: "HTTPFilterTraceConfig option"
  HTTPFilterConfig_RDS :: "RDS option"
  RouteConfig :: "'x HTTPRouteConfig option"

record 'x TCPProxyFilterConfig =
  TCPProxy_StatPrefix :: string
  TCPProxy_RouteConfig :: "'x TCPRouteConfig"

datatype 'x NetworkFilterCfg =
    HTTPFilterConfig_of "'x HTTPFilterConfig"
  | TCPProxyFilterConfig_of "'x TCPProxyFilterConfig"
  | NetworkFilterCfg_other 'x

record 'x NetworkFilter =
  NetworkFilter_Type :: string
  NetworkFilter_Name :: string
  NetworkFilter_Config :: "'x NetworkFilterCfg"

text \<open>
  A \<^verbatim>\<open>Listener\<close>. \<^verbatim>\<open>SSLContext\<close> is a pointer, \<^verbatim>\<open>nil\<close> when a
  composite literal does not set it; the two booleans are \<^verbatim>\<open>false\<close> then.
\<close>

record 'x Listener =
  Name :: string
  Address :: string
  BindToPort :: bool
  UseOriginalDst :: bool
  Filters :: "'x NetworkFilter list"
  SSLContext :: "'x option"

type_synonym 'x Listeners = "'x Listener list"
type_synonym 'x Clusters = "'x Cluster list"

subsection \<open>The proxy configuration\<close>

record Admin =
  AccessLogPath :: string
  Admin_Address :: string

record 'x DiscoveryCluster =
  DiscoveryCluster_Cluster :: "'x Cluster"
  DiscoveryCluster_RefreshDelayMs :: int

record LDSCluster =
  LDSCluster_Cluster :: string
  LDSCluster_RefreshDelayMs :: int

record 'x ClusterManager =
  ClusterManager_Clusters :: "'x Clusters"
  SDS :: "'x DiscoveryCluster option"
  CDS :: "'x DiscoveryCluster option"

record 'x Config =
  Config_Listeners :: "'x Listeners"
  Admin :: Admin
  ClusterManager :: "'x ClusterManager"
  StatsdUDPIPAddress :: string
  LDS :: "LDSCluster option"
  Tracing :: "'x option"

section \<open>What config.go takes from other files\<close>

text \<open>
  The string constants of package \<^verbatim>\<open>envoy\<close> that config.go names. Their
  declarations are in other files, so their values are parameters.
\<close>

record Names =
  DefaultAccessLog :: string
  LocalhostAddress :: string
  WildcardAddress :: string
  RDSName :: string
  SDSName :: string
  CDSName :: string
  LDSName :: string
  RDSAll :: string
  ZipkinCollectorCluster :: string
  VirtualListenerName :: string
  IngressTraceOperation :: string
  ClusterTypeStrictDNS :: string
  HTTPConnectionManager :: string
  TCPProxyFilter :: string
  MixerFilter :: string
  decoder :: string
  router :: string
  read :: string
  both :: string
  auto :: string

text \<open>
  The functions and methods that config.go calls and that are declared in
  other files of the repository. \<^verbatim>\<open>normalizeListeners\<close>,
  \<^verbatim>\<open>normalizeClusters\<close> and \<^verbatim>\<open>normalizeRouteConfigs\<close> are the three
  methods called \<^verbatim>\<open>normalize\<close>; \<^verbatim>\<open>routeConfigClusters\<close> and
  \<^verbatim>\<open>routeConfigsClusters\<close> are the two methods called \<^verbatim>\<open>clusters\<close>.
  \<^verbatim>\<open>GetByAddress\<close> returns a pointer to a listener or \<^verbatim>\<open>nil\<close>.
  \<^verbatim>\<open>EnsurePort\<close> gives the map as the call leaves it; the pointer that it
  returns is taken to be the entry of that map for the port.
  \<^verbatim>\<open>rangeStrings\<close> and \<^verbatim>\<open>rangeConfigs\<close> are not functions of the
  program: they stand for the order in which one run of the Go runtime ranges
  over the keys of a map, which the language leaves open.
\<close>

record 'x Helpers =
  buildHTTPRoute :: "'x RouteRule \<Rightarrow> 'x Port \<Rightarrow> 'x HTTPRoute"
  CatchAll :: "'x HTTPRoute \<Rightarrow> bool"
  buildOutboundCluster :: "string \<Rightarrow> 'x Port \<Rightarrow> 'x option \<Rightarrow> 'x Cluster"
  buildInboundCluster :: "int \<Rightarrow> Protocol \<Rightarrow> 'x option \<Rightarrow> 'x Cluster"
  buildCluster :: "string \<Rightarrow> string \<Rightarrow> 'x option \<Rightarrow> 'x Cluster"
  buildDefaultRoute :: "'x Cluster \<Rightarrow> 'x HTTPRoute"
  buildInboundWebsocketRoute :: "'x RouteRule \<Rightarrow> 'x Cluster \<Rightarrow> 'x HTTPRoute"
  buildTCPRoute :: "'x Cluster \<Rightarrow> string list \<Rightarrow> 'x"
  buildVirtualHost ::
    "'x Service \<Rightarrow> 'x Port \<Rightarrow> string list \<Rightarrow> 'x HTTPRoute list \<Rightarrow> 'x VirtualHost"
  External :: "'x Service \<Rightarrow> bool"
  protoDurationToMS :: "'x option \<Rightarrow> int"
  buildZipkinTracing :: "'x ProxyMeshConfig \<Rightarrow> 'x"
  buildFaultFilters :: "'x HTTPRouteConfig option \<Rightarrow> 'x HTTPFilter list"
  mixerHTTPRouteConfig :: "'x Node \<Rightarrow> string \<Rightarrow> 'x"
  mixerTCPConfig :: "'x Node \<Rightarrow> 'x"
  buildMixerOpaqueConfig :: "bool \<Rightarrow> bool \<Rightarrow> 'x"
  buildListenerSSLContext :: "string \<Rightarrow> 'x"
  normalizeListeners :: "'x Listeners \<Rightarrow> 'x Listeners"
  normalizeClusters :: "'x Clusters \<Rightarrow> 'x Clusters"
  normalizeRouteConfigs :: "'x HTTPRouteConfigs \<Rightarrow> 'x HTTPRouteConfigs"
  GetByAddress :: "'x Listeners \<Rightarrow> string \<Rightarrow> 'x Listener option"
  EnsurePort :: "'x HTTPRouteConfigs \<Rightarrow> int \<Rightarrow> 'x HTTPRouteConfigs"
  routeConfigClusters :: "'x HTTPRouteConfig \<Rightarrow> 'x Clusters"
  routeConfigsClusters :: "'x HTTPRouteConfigs \<Rightarrow> 'x Clusters"
  rangeStrings :: "string list \<Rightarrow> string list"
  rangeConfigs :: "'x HTTPRouteConfigs \<Rightarrow> 'x HTTPRouteConfigs"

section \<open>Go's standard library\<close>

text \<open>
  \<^verbatim>\<open>fmt.Sprintf\<close> with the verb \<^verbatim>\<open>%d\<close> prints an integer in decimal, with
  a minus sign when it is negative.
\<close>

function digits :: "nat \<Rightarrow> string" where
  "digits n =
     (if n < 10 then [''0123456789'' ! n]
      else digits (n div 10) @ [''0123456789'' ! (n mod 10)])"
  by pat_completeness auto
termination
  by (relation "measure id") auto

declare digits.simps [simp del]

definition itoa :: "int \<Rightarrow> string" where
  "itoa i = (if i < 0 then CHR ''-'' # digits (nat (- i)) else digits (nat i))"

text \<open>\<^verbatim>\<open>strings.Join\<close>, and \<^verbatim>\<open>strings.Split\<close> on a separator of one byte.\<close>

fun Join :: "string list \<Rightarrow> string \<Rightarrow> string" where
  "Join [] sep = []"
| "Join [s] sep = s"
| "Join (s # ss) sep = s @ sep @ Join ss sep"

fun Split :: "string \<Rightarrow> char \<Rightarrow> string list" where
  "Split [] sep = [[]]"
| "Split (c # cs) sep =
     (if c = sep then [] # Split cs sep
      else (let r = Split cs sep in (c # hd r) # tl r))"

section \<open>Writing the configuration\<close>

text \<open>
  \<^verbatim>\<open>WriteFile\<close> and \<^verbatim>\<open>Write\<close> act on the file system and on standard
  error. The file system is the content of every file and the names that are
  links: a name \<open>p\<close> with \<open>links fs p = Some q\<close> denotes the file \<open>q\<close>, so
  that opening \<open>p\<close> opens \<open>q\<close>, as the operating system does for a symbolic
  or a hard link; every other name denotes the file of that name.
\<close>

datatype error = Error string | MultiError "error list"

record FS =
  files :: "string \<rightharpoonup> string"
  links :: "string \<rightharpoonup> string"
  stderr :: string

definition resolve :: "FS \<Rightarrow> string \<Rightarrow> string" where
  "resolve fs p = (case links fs p of None \<Rightarrow> p | Some q \<Rightarrow> q)"

text \<open>
  The state of the process is the file system together with the calls that
  config.go itself has made on files, in order: \<^verbatim>\<open>os.Create\<close> with the name
  it was given, and the \<^verbatim>\<open>Write\<close> and \<^verbatim>\<open>Close\<close> methods with the file
  they act on. config.go calls no other function of package \<^verbatim>\<open>os\<close>.
\<close>

datatype FileOp = OpCreate string | OpWrite string string | OpClose string

record Proc =
  fsys :: FS
  ops :: "FileOp list"

text \<open>
  What the code cannot decide: the result of \<^verbatim>\<open>json.MarshalIndent\<close> (the
  struct tags are declared in other files), what \<^verbatim>\<open>glog.V(2)\<close> answers,
  what \<^verbatim>\<open>glog.Infof\<close> and \<^verbatim>\<open>glog.Error\<close> do to the file system and to
  standard error (package \<^verbatim>\<open>glog\<close> appends the line to a log file of its
  own, which it creates, or prints it on standard error, as its flags say), and
  which calls of the operating system fail. A failing write reports the number
  of bytes it has written.
\<close>

record 'x Sys =
  MarshalIndent :: "'x Config \<Rightarrow> error + string"
  V2 :: bool
  glogInfof :: "string \<Rightarrow> FS \<Rightarrow> FS"
  glogError :: "error \<Rightarrow> FS \<Rightarrow> FS"
  createErr :: "string \<Rightarrow> error option"
  writeErr :: "string \<Rightarrow> (nat \<times> error) option"
  closeErr :: "string \<Rightarrow> error option"
  stderrErr :: "(nat \<times> error) option"

text \<open>
  A writer is standard error or an open file. \<^verbatim>\<open>w.Write(out)\<close> for the two
  writers that config.go passes.
\<close>

datatype Writer = Stderr | File string

fun writeBytes :: "'x Sys \<Rightarrow> Writer \<Rightarrow> string \<Rightarrow> Proc \<Rightarrow> error option \<times> Proc" where
  "writeBytes sys Stderr out st =
     (case stderrErr sys of
        None \<Rightarrow> (None, st\<lparr>fsys := (fsys st)\<lparr>stderr := stderr (fsys st) @ out\<rparr>\<rparr>)
      | Some (n, err) \<Rightarrow>
          (Some err, st\<lparr>fsys := (fsys st)\<lparr>stderr := stderr (fsys st) @ take n out\<rparr>\<rparr>))"
| "writeBytes sys (File f) out st =
     (let old = (case files (fsys st) f of None \<Rightarrow> [] | Some c \<Rightarrow> c);
          st' = st\<lparr>ops := ops st @ [OpWrite f out]\<rparr>
      in case writeErr sys f of
           None \<Rightarrow> (None, st'\<lparr>fsys := (fsys st')\<lparr>files := (files (fsys st'))(f \<mapsto> old @ out)\<rparr>\<rparr>)
         | Some (n, err) \<Rightarrow>
             (Some err,
              st'\<lparr>fsys := (fsys st')\<lparr>files := (files (fsys st'))(f \<mapsto> old @ take n out)\<rparr>\<rparr>))"

definition Write :: "'x Sys \<Rightarrow> 'x Config \<Rightarrow> Writer \<Rightarrow> Proc \<Rightarrow> error option \<times> Proc" where
  "Write sys conf w st =
     (case MarshalIndent sys conf of
        Inl err \<Rightarrow> (Some err, st)
      | Inr out \<Rightarrow> writeBytes sys w out st)"

text \<open>
  \<^verbatim>\<open>os.Create(fname)\<close> opens the file that \<^verbatim>\<open>fname\<close> denotes, making it
  when there is none and truncating it when there is one, and returns the open
  file; \<^verbatim>\<open>file.Close\<close>.
\<close>

definition osCreate :: "'x Sys \<Rightarrow> string \<Rightarrow> Proc \<Rightarrow> (error + string) \<times> Proc" where
  "osCreate sys fname st =
     (let st' = st\<lparr>ops := ops st @ [OpCreate fname]\<rparr>
      in case createErr sys fname of
           Some err \<Rightarrow> (Inl err, st')
         | None \<Rightarrow>
             (let f = resolve (fsys st') fname
              in (Inr f, st'\<lparr>fsys := (fsys st')\<lparr>files := (files (fsys st'))(f \<mapsto> [])\<rparr>\<rparr>)))"

definition fileClose :: "'x Sys \<Rightarrow> string \<Rightarrow> Proc \<Rightarrow> error option \<times> Proc" where
  "fileClose sys f st = (closeErr sys f, st\<lparr>ops := ops st @ [OpClose f]\<rparr>)"

text \<open>
  \<^verbatim>\<open>multierror.Append(err, file.Close())\<close>: a new multi-error that holds
  \<^verbatim>\<open>err\<close> and, when it is not \<^verbatim>\<open>nil\<close>, the error of \<^verbatim>\<open>Close\<close>.
\<close>

definition multierrorAppend :: "error \<Rightarrow> error option \<Rightarrow> error" where
  "multierrorAppend err e =
     MultiError ((case err of MultiError es \<Rightarrow> es | _ \<Rightarrow> [err])
                 @ (case e of None \<Rightarrow> [] | Some (MultiError es) \<Rightarrow> es | Some e' \<Rightarrow> [e']))"

text \<open>
  The block of \<^verbatim>\<open>WriteFile\<close> under \<^verbatim>\<open>glog.V(2)\<close>: the line
  \<^verbatim>\<open>writing configuration to\<close> with the file name goes to
  \<^verbatim>\<open>glog.Infof\<close>, the configuration is written to standard error, and an
  error of that write goes to \<^verbatim>\<open>glog.Error\<close>.
\<close>

definition logConfiguration :: "'x Sys \<Rightarrow> 'x Config \<Rightarrow> string \<Rightarrow> Proc \<Rightarrow> Proc" where
  "logConfiguration sys conf fname st =
     (if V2 sys then
        (let st = st\<lparr>fsys := glogInfof sys (''writing configuration to '' @ fname) (fsys st)\<rparr>;
             (err, st) = Write sys conf Stderr st
         in case err of
              Some e \<Rightarrow> st\<lparr>fsys := glogError sys e (fsys st)\<rparr>
            | None \<Rightarrow> st)
      else st)"

definition WriteFile :: "'x Sys \<Rightarrow> 'x Config \<Rightarrow> string \<Rightarrow> Proc \<Rightarrow> error option \<times> Proc" where
  "WriteFile sys conf fname st =
     (let st = logConfiguration sys conf fname st;
          (r, st) = osCreate sys fname st
      in case r of
           Inl e \<Rightarrow> (Some e, st)
         | Inr file \<Rightarrow>
             (let (err, st) = Write sys conf (File file) st
              in case err of
                   Some e \<Rightarrow>
                     (let (cerr, st) = fileClose sys file st
                      in (Some (multierrorAppend e cerr), st))
                 | None \<Rightarrow> fileClose sys file st))"

section \<open>The proxy configuration with its discovery clusters\<close>

definition buildConfig ::
  "Names \<Rightarrow> 'x Helpers \<Rightarrow> 'x Listeners \<Rightarrow> 'x Clusters \<Rightarrow> bool \<Rightarrow> 'x ProxyMeshConfig
     \<Rightarrow> 'x Config" where
  "buildConfig c h listeners clusters lds mesh =
     (let out = \<lparr>
            Config_Listeners = listeners,
            Admin = \<lparr>
              AccessLogPath = DefaultAccessLog c,
              Admin_Address = ''tcp://'' @ LocalhostAddress c @ '':'' @ itoa (ProxyAdminPort mesh)\<rparr>,
            ClusterManager = \<lparr>
              ClusterManager_Clusters = clusters @
                [buildCluster h (DiscoveryAddress mesh) (RDSName c) (ConnectTimeout mesh)],
              SDS = Some \<lparr>
                DiscoveryCluster_Cluster =
                  buildCluster h (DiscoveryAddress mesh) (SDSName c) (ConnectTimeout mesh),
                DiscoveryCluster_RefreshDelayMs =
                  protoDurationToMS h (DiscoveryRefreshDelay mesh)\<rparr>,
              CDS = Some \<lparr>
                DiscoveryCluster_Cluster =
                  buildCluster h (DiscoveryAddress mesh) (CDSName c) (ConnectTimeout mesh),
                DiscoveryCluster_RefreshDelayMs =
                  protoDurationToMS h (DiscoveryRefreshDelay mesh)\<rparr>\<rparr>,
            StatsdUDPIPAddress = StatsdUdpAddress mesh,
            LDS = None,
            Tracing = None\<rparr>;
          out = (if lds then
                   out\<lparr>LDS := Some \<lparr>
                          LDSCluster_Cluster = LDSName c,
                          LDSCluster_RefreshDelayMs =
                            protoDurationToMS h (DiscoveryRefreshDelay mesh)\<rparr>,
                       ClusterManager := (ClusterManager out)\<lparr>
                          ClusterManager_Clusters :=
                            ClusterManager_Clusters (ClusterManager out) @
                              [buildCluster h (DiscoveryAddress mesh) (LDSName c)
                                 (ConnectTimeout mesh)]\<rparr>\<rparr>
                 else out);
          out = (if ZipkinAddress mesh \<noteq> [] then
                   out\<lparr>ClusterManager := (ClusterManager out)\<lparr>
                          ClusterManager_Clusters :=
                            ClusterManager_Clusters (ClusterManager out) @
                              [buildCluster h (ZipkinAddress mesh) (ZipkinCollectorCluster c)
                                 (ConnectTimeout mesh)]\<rparr>,
                       Tracing := Some (buildZipkinTracing h mesh)\<rparr>
                 else out)
      in out)"

section \<open>Route construction\<close>

text \<open>
  The \<^verbatim>\<open>for _, rule := range rules\<close> loop of
  \<^verbatim>\<open>buildDestinationHTTPRoutes\<close>. The state of the loop is the slice
  \<^verbatim>\<open>routes\<close> and the flag \<^verbatim>\<open>useDefaultRoute\<close>; \<^verbatim>\<open>break\<close>
  returns without looking at the remaining rules.
\<close>

fun collectRouteRules ::
  "'x Helpers \<Rightarrow> 'x Service \<Rightarrow> 'x Port \<Rightarrow> 'x RouteRule list \<Rightarrow>
     'x HTTPRoute list \<Rightarrow> 'x HTTPRoute list \<times> bool" where
  "collectRouteRules h service servicePort [] routes = (routes, True)"
| "collectRouteRules h service servicePort (rule # rules) routes =
     (if Destination rule = Hostname service then
        (let httpRoute = buildHTTPRoute h rule servicePort;
             routes' = routes @ [httpRoute]
         in if CatchAll h httpRoute then (routes', False)
            else collectRouteRules h service servicePort rules routes')
      else collectRouteRules h service servicePort rules routes)"

text \<open>
  \<^verbatim>\<open>buildDestinationHTTPRoutes\<close>. Go's \<^verbatim>\<open>nil\<close> slice is the empty list:
  the callers only take its length.
\<close>

definition buildDestinationHTTPRoutes ::
  "'x Helpers \<Rightarrow> 'x Service \<Rightarrow> 'x Port \<Rightarrow> 'x RouteRule list \<Rightarrow> 'x HTTPRoute list" where
  "buildDestinationHTTPRoutes h service servicePort rules =
     (let protocol = Protocol servicePort in
      if protocol = ProtocolHTTP \<or> protocol = ProtocolHTTP2 \<or> protocol = ProtocolGRPC then
        (let (routes, useDefaultRoute) = collectRouteRules h service servicePort rules [] in
         if useDefaultRoute then
           (let cluster = buildOutboundCluster h (Hostname service) servicePort None
            in routes @ [buildDefaultRoute h cluster])
         else routes)
      else if protocol = ProtocolHTTPS then
        (if External h service then
           (let cluster = buildOutboundCluster h (Hostname service) servicePort None
            in [buildDefaultRoute h cluster])
         else [])
      else [])"

section \<open>Listeners\<close>

text \<open>
  \<^verbatim>\<open>buildHTTPListener\<close>. The set of service names is a Go map; ranging over
  it yields its keys in the order of \<^verbatim>\<open>rangeStrings\<close>, and
  \<^verbatim>\<open>sort.Strings\<close> sorts them bytewise. A \<^verbatim>\<open>nil\<close> slice of instances
  and an empty one both give the empty service name.
\<close>

definition buildHTTPListener ::
  "Names \<Rightarrow> 'x Helpers \<Rightarrow> 'x ProxyMeshConfig \<Rightarrow> 'x Node \<Rightarrow> 'x ServiceInstance list \<Rightarrow>
     'x HTTPRouteConfig option \<Rightarrow> string \<Rightarrow> int \<Rightarrow> string \<Rightarrow> bool \<Rightarrow> 'x Listener" where
  "buildHTTPListener c h mesh role instances routeConfig ip port rds useRemoteAddress =
     (let filters = buildFaultFilters h routeConfig;
          filters = filters @ [\<lparr>
            HTTPFilter_Type = decoder c,
            HTTPFilter_Name = router c,
            HTTPFilter_Config = FilterRouterConfig\<rparr>];
          serviceSet = remdups (map (\<lambda>instance. Hostname (Service instance)) instances);
          services = rangeStrings h serviceSet;
          service = Join (sort services) '','';
          filters = (if MixerAddress mesh \<noteq> [] then
                       [\<lparr>HTTPFilter_Type = decoder c,
                         HTTPFilter_Name = MixerFilter c,
                         HTTPFilter_Config =
                           HTTPFilterCfg_other (mixerHTTPRouteConfig h role service)\<rparr>] @ filters
                     else filters);
          config = \<lparr>
            CodecType = auto c,
            GenerateRequestID = True,
            UseRemoteAddress = useRemoteAddress,
            StatPrefix = ''http'',
            AccessLog = [\<lparr>Path = DefaultAccessLog c\<rparr>],
            HTTPFilterConfig_Filters = filters,
            HTTPFilterConfig_Tracing = None,
            HTTPFilterConfig_RDS = None,
            RouteConfig = None\<rparr>;
          config = (if ZipkinAddress mesh \<noteq> [] then
                      config\<lparr>HTTPFilterConfig_Tracing :=
                               Some \<lparr>OperationName = IngressTraceOperation c\<rparr>\<rparr>
                    else config);
          config = (if rds \<noteq> [] then
                      config\<lparr>HTTPFilterConfig_RDS := Some \<lparr>
                               RDS_Cluster = RDSName c,
                               RouteConfigName = rds,
                               RDS_RefreshDelayMs =
                                 protoDurationToMS h (DiscoveryRefreshDelay mesh)\<rparr>\<rparr>
                    else config\<lparr>RouteConfig := routeConfig\<rparr>)
      in \<lparr>Name = ''http_'' @ ip @ ''_'' @ itoa port,
          Address = ''tcp://'' @ ip @ '':'' @ itoa port,
          BindToPort = True,
          UseOriginalDst = False,
          Filters = [\<lparr>
            NetworkFilter_Type = read c,
            NetworkFilter_Name = HTTPConnectionManager c,
            NetworkFilter_Config = HTTPFilterConfig_of config\<rparr>],
          SSLContext = None\<rparr>)"

text \<open>
  \<^verbatim>\<open>applyInboundAuth\<close> assigns through the pointer to the listener; the
  model returns the listener after the call.
\<close>

definition applyInboundAuth ::
  "'x Helpers \<Rightarrow> 'x Listener \<Rightarrow> 'x ProxyMeshConfig \<Rightarrow> 'x Listener" where
  "applyInboundAuth h listener mesh =
     (case AuthPolicy mesh of
        ProxyMeshConfig_NONE \<Rightarrow> listener
      | ProxyMeshConfig_MUTUAL_TLS \<Rightarrow>
          listener\<lparr>SSLContext := Some (buildListenerSSLContext h (AuthCertsPath mesh))\<rparr>
      | ProxyMeshConfig_AuthPolicy_other v \<Rightarrow> listener)"

definition buildTCPListener ::
  "Names \<Rightarrow> 'x TCPRouteConfig \<Rightarrow> string \<Rightarrow> int \<Rightarrow> 'x Listener" where
  "buildTCPListener c tcpConfig ip port =
     \<lparr>Name = ''tcp_'' @ ip @ ''_'' @ itoa port,
      Address = ''tcp://'' @ ip @ '':'' @ itoa port,
      BindToPort = False,
      UseOriginalDst = False,
      Filters = [\<lparr>
        NetworkFilter_Type = read c,
        NetworkFilter_Name = TCPProxyFilter c,
        NetworkFilter_Config = TCPProxyFilterConfig_of \<lparr>
          TCPProxy_StatPrefix = ''tcp'',
          TCPProxy_RouteConfig = tcpConfig\<rparr>\<rparr>],
      SSLContext = None\<rparr>"

section \<open>Outbound routes and listeners\<close>

text \<open>
  The assignment \<^verbatim>\<open>http.VirtualHosts = append(http.VirtualHosts, host)\<close>
  through the pointer that \<^verbatim>\<open>EnsurePort\<close> returned.
\<close>

definition appendVirtualHost ::
  "'x HTTPRouteConfigs \<Rightarrow> int \<Rightarrow> 'x VirtualHost \<Rightarrow> 'x HTTPRouteConfigs" where
  "appendVirtualHost httpConfigs port host =
     map (\<lambda>(p, http). if p = port then (p, http\<lparr>VirtualHosts := VirtualHosts http @ [host]\<rparr>)
                        else (p, http)) httpConfigs"

text \<open>
  The rewrite of the routes of an external service: each route gets the host
  name of the service, each of its clusters the address of the egress proxy.
\<close>

definition useEgressProxy ::
  "Names \<Rightarrow> 'x ProxyMeshConfig \<Rightarrow> 'x Service \<Rightarrow> 'x HTTPRoute \<Rightarrow> 'x HTTPRoute" where
  "useEgressProxy c mesh service route =
     route\<lparr>HostRewrite := Hostname service,
           route_clusters :=
             map (\<lambda>cluster. cluster\<lparr>
                    ServiceName := [],
                    Type := ClusterTypeStrictDNS c,
                    Hosts := [\<lparr>URL = ''tcp://'' @ EgressProxyAddress mesh\<rparr>]\<rparr>)
                 (route_clusters route)\<rparr>"

text \<open>The body of the two nested loops of \<^verbatim>\<open>buildOutboundHTTPRoutes\<close>.\<close>

definition outboundHTTPRoutesStep ::
  "Names \<Rightarrow> 'x Helpers \<Rightarrow> 'x ProxyMeshConfig \<Rightarrow> string list \<Rightarrow> 'x RouteRule list \<Rightarrow>
     'x Service \<Rightarrow> 'x Port \<Rightarrow> 'x HTTPRouteConfigs \<Rightarrow> 'x HTTPRouteConfigs" where
  "outboundHTTPRoutesStep c h mesh suffix rules service servicePort httpConfigs =
     (if External h service \<and> EgressProxyAddress mesh = [] then httpConfigs
      else
        (let routes = buildDestinationHTTPRoutes h service servicePort rules in
         if length routes > 0 then
           (let routes = (if External h service
                          then map (useEgressProxy c mesh service) routes else routes);
                host = buildVirtualHost h service servicePort suffix routes;
                httpConfigs = EnsurePort h httpConfigs (Port servicePort)
            in appendVirtualHost httpConfigs (Port servicePort) host)
         else httpConfigs))"

definition buildOutboundHTTPRoutes ::
  "Names \<Rightarrow> 'x Helpers \<Rightarrow> 'x ProxyMeshConfig \<Rightarrow> 'x Node \<Rightarrow> 'x ServiceInstance list \<Rightarrow>
     'x Service list \<Rightarrow> 'x IstioConfigStore \<Rightarrow> 'x HTTPRouteConfigs" where
  "buildOutboundHTTPRoutes c h mesh sidecar instances services config =
     (let httpConfigs = [];
          suffix = Split (Domain sidecar) CHR ''.'';
          rules = RouteRulesBySource config instances;
          httpConfigs =
            fold (\<lambda>service httpConfigs.
                    fold (outboundHTTPRoutesStep c h mesh suffix rules service)
                         (Ports service) httpConfigs)
                 services httpConfigs
      in normalizeRouteConfigs h httpConfigs)"

text \<open>
  \<^verbatim>\<open>buildOutboundTCPListeners\<close> appends to its two slices in step, so the
  model collects pairs.
\<close>

definition buildOutboundTCPListeners ::
  "Names \<Rightarrow> 'x Helpers \<Rightarrow> 'x ProxyMeshConfig \<Rightarrow> 'x Service list \<Rightarrow> 'x Listeners \<times> 'x Clusters" where
  "buildOutboundTCPListeners c h mesh services =
     (let built = concat (map (\<lambda>service.
            if External h service then []
            else concat (map (\<lambda>servicePort.
                   if Protocol servicePort = ProtocolTCP \<or> Protocol servicePort = ProtocolHTTPS
                   then
                     (let cluster = buildOutboundCluster h (Hostname service) servicePort None;
                          route = buildTCPRoute h cluster [Service_Address service];
                          config = \<lparr>TCPRouteConfig_Routes = [route]\<rparr>;
                          listener = buildTCPListener c config (Service_Address service)
                                       (Port servicePort)
                      in [(listener, cluster)])
                   else []) (Ports service))) services)
      in (map fst built, map snd built))"

text \<open>
  \<^verbatim>\<open>buildOutboundListeners\<close> ranges over the map of route configurations,
  in the order of \<^verbatim>\<open>rangeConfigs\<close>.
\<close>

definition buildOutboundListeners ::
  "Names \<Rightarrow> 'x Helpers \<Rightarrow> 'x ProxyMeshConfig \<Rightarrow> 'x Node \<Rightarrow> 'x ServiceInstance list \<Rightarrow>
     'x Service list \<Rightarrow> 'x IstioConfigStore \<Rightarrow> 'x Listeners \<times> 'x Clusters" where
  "buildOutboundListeners c h mesh sidecar instances services config =
     (let (listeners, clusters) = buildOutboundTCPListeners c h mesh services;
          httpOutbound = buildOutboundHTTPRoutes c h mesh sidecar instances services config
      in fold (\<lambda>(port, routeConfig) (listeners, clusters).
                 (listeners @ [buildHTTPListener c h mesh sidecar instances (Some routeConfig)
                                 (WildcardAddress c) port (itoa port) False],
                  clusters @ routeConfigClusters h routeConfig))
              (rangeConfigs h httpOutbound) (listeners, clusters))"

section \<open>Inbound and management listeners\<close>

text \<open>
  The body of the loop over the instances in \<^verbatim>\<open>buildInboundListeners\<close>:
  what one instance appends to \<^verbatim>\<open>listeners\<close>. Its cluster is appended to
  \<^verbatim>\<open>clusters\<close> for every protocol.
\<close>

definition inboundListener ::
  "Names \<Rightarrow> 'x Helpers \<Rightarrow> 'x ProxyMeshConfig \<Rightarrow> 'x Node \<Rightarrow> 'x ServiceInstance list \<Rightarrow>
     'x IstioConfigStore \<Rightarrow> 'x ServiceInstance \<Rightarrow> 'x Cluster \<Rightarrow> 'x Listeners" where
  "inboundListener c h mesh sidecar instances config instance cluster =
     (let endpoint = Endpoint instance;
          servicePort = ServicePort endpoint;
          protocol = Protocol servicePort
      in if protocol = ProtocolHTTP \<or> protocol = ProtocolHTTP2 \<or> protocol = ProtocolGRPC then
           (let defaultRoute = buildDefaultRoute h cluster;
                defaultRoute =
                  (if MixerAddress mesh \<noteq> [] then
                     defaultRoute\<lparr>OpaqueConfig := Some (buildMixerOpaqueConfig h True False)\<rparr>
                   else defaultRoute);
                host = \<lparr>VirtualHost_Name = ''inbound|'' @ itoa (Endpoint_Port endpoint),
                        Domains = [''*''],
                        Routes = []\<rparr>;
                host =
                  (if protocol = ProtocolHTTP then
                     (let rules = RouteRulesByDestination config instances
                      in fold (\<lambda>rule host.
                            if WebsocketUpgrade rule then
                              (let websocketRoute = buildInboundWebsocketRoute h rule cluster;
                                   websocketRoute =
                                     (if MixerAddress mesh \<noteq> [] then
                                        websocketRoute\<lparr>OpaqueConfig :=
                                          Some (buildMixerOpaqueConfig h True False)\<rparr>
                                      else websocketRoute)
                               in host\<lparr>Routes := Routes host @ [websocketRoute]\<rparr>)
                            else host) rules host)
                   else host);
                host = host\<lparr>Routes := Routes host @ [defaultRoute]\<rparr>;
                config = \<lparr>VirtualHosts = [host]\<rparr>
            in [buildHTTPListener c h mesh sidecar instances (Some config)
                  (Endpoint_Address endpoint) (Endpoint_Port endpoint) [] False])
         else if protocol = ProtocolTCP \<or> protocol = ProtocolHTTPS then
           (let listener = buildTCPListener c
                  \<lparr>TCPRouteConfig_Routes = [buildTCPRoute h cluster [Endpoint_Address endpoint]]\<rparr>
                  (Endpoint_Address endpoint) (Endpoint_Port endpoint);
                listener =
                  (if MixerAddress mesh \<noteq> [] then
                     (let filter = \<lparr>
                            NetworkFilter_Type = both c,
                            NetworkFilter_Name = MixerFilter c,
                            NetworkFilter_Config = NetworkFilterCfg_other (mixerTCPConfig h sidecar)\<rparr>
                      in listener\<lparr>Filters := [filter] @ Filters listener\<rparr>)
                   else listener)
            in [listener])
         else [])"

text \<open>
  The first loop of \<^verbatim>\<open>buildInboundListeners\<close>, over the instances, and the
  function itself: its second loop applies \<^verbatim>\<open>applyInboundAuth\<close> to every
  listener that the first has built.
\<close>

definition inboundListenersLoop ::
  "Names \<Rightarrow> 'x Helpers \<Rightarrow> 'x ProxyMeshConfig \<Rightarrow> 'x Node \<Rightarrow> 'x ServiceInstance list \<Rightarrow>
     'x IstioConfigStore \<Rightarrow> 'x Listeners \<times> 'x Clusters" where
  "inboundListenersLoop c h mesh sidecar instances config =
     fold (\<lambda>instance (listeners, clusters).
             (let endpoint = Endpoint instance;
                  servicePort = ServicePort endpoint;
                  protocol = Protocol servicePort;
                  cluster = buildInboundCluster h (Endpoint_Port endpoint) protocol
                              (ConnectTimeout mesh)
              in (listeners @ inboundListener c h mesh sidecar instances config
                                instance cluster,
                  clusters @ [cluster])))
          instances ([], [])"

definition buildInboundListeners ::
  "Names \<Rightarrow> 'x Helpers \<Rightarrow> 'x ProxyMeshConfig \<Rightarrow> 'x Node \<Rightarrow> 'x ServiceInstance list \<Rightarrow>
     'x IstioConfigStore \<Rightarrow> 'x Listeners \<times> 'x Clusters" where
  "buildInboundListeners c h mesh sidecar instances config =
     (let (listeners, clusters) = inboundListenersLoop c h mesh sidecar instances config;
          listeners = map (\<lambda>listener. applyInboundAuth h listener mesh) listeners
      in (listeners, clusters))"

definition buildMgmtPortListeners ::
  "Names \<Rightarrow> 'x Helpers \<Rightarrow> 'x ProxyMeshConfig \<Rightarrow> 'x Port list \<Rightarrow> string \<Rightarrow>
     'x Listeners \<times> 'x Clusters" where
  "buildMgmtPortListeners c h mesh managementPorts managementIP =
     fold (\<lambda>mPort (listeners, clusters).
             if Protocol mPort = ProtocolHTTP \<or> Protocol mPort = ProtocolHTTP2
                \<or> Protocol mPort = ProtocolGRPC \<or> Protocol mPort = ProtocolTCP
                \<or> Protocol mPort = ProtocolHTTPS then
               (let cluster = buildInboundCluster h (Port mPort) ProtocolTCP (ConnectTimeout mesh);
                    listener = buildTCPListener c
                      \<lparr>TCPRouteConfig_Routes = [buildTCPRoute h cluster [managementIP]]\<rparr>
                      managementIP (Port mPort)
                in (listeners @ [listener], clusters @ [cluster]))
             else (listeners, clusters))
          managementPorts ([], [])"

section \<open>The sidecar\<close>

text \<open>
  The loop \<^verbatim>\<open>for i := range mgmtListeners\<close> of \<^verbatim>\<open>buildSidecar\<close>. It reads
  \<^verbatim>\<open>mgmtClusters[i]\<close>, which panics when the index is out of range: that is
  the result \<open>None\<close>. \<^verbatim>\<open>continue\<close> goes on with the next index and leaves
  both slices as they are.
\<close>

fun appendMgmtListeners ::
  "'x Helpers \<Rightarrow> 'x Listeners \<Rightarrow> 'x Clusters \<Rightarrow> nat \<Rightarrow> 'x Listeners \<Rightarrow> 'x Clusters \<Rightarrow>
     ('x Listeners \<times> 'x Clusters) option" where
  "appendMgmtListeners h [] mgmtClusters i listeners clusters = Some (listeners, clusters)"
| "appendMgmtListeners h (m # rest) mgmtClusters i listeners clusters =
     (if i < length mgmtClusters then
        (let cl = mgmtClusters ! i;
             l = GetByAddress h listeners (Address m)
         in if l \<noteq> None then appendMgmtListeners h rest mgmtClusters (i + 1) listeners clusters
            else appendMgmtListeners h rest mgmtClusters (i + 1)
                   (listeners @ [m]) (clusters @ [cl]))
      else None)"

definition buildSidecar ::
  "Names \<Rightarrow> 'x Helpers \<Rightarrow> 'x Environment \<Rightarrow> 'x Node \<Rightarrow> ('x Listeners \<times> 'x Clusters) option" where
  "buildSidecar c h env sidecar =
     (let instances = HostInstances env [IPAddress sidecar \<mapsto> True];
          services = Services env;
          managementPorts = ManagementPorts env (IPAddress sidecar);
          listeners = [];
          clusters = [];
          r = (if ProxyListenPort (Mesh env) > 0 then
                 (let (inbound, inClusters) =
                        buildInboundListeners c h (Mesh env) sidecar instances
                          (IstioConfigStore env);
                      (outbound, outClusters) =
                        buildOutboundListeners c h (Mesh env) sidecar instances services
                          (IstioConfigStore env);
                      (mgmtListeners, mgmtClusters) =
                        buildMgmtPortListeners c h (Mesh env) managementPorts (IPAddress sidecar);
                      listeners = listeners @ inbound;
                      listeners = listeners @ outbound;
                      clusters = clusters @ inClusters;
                      clusters = clusters @ outClusters
                  in case appendMgmtListeners h mgmtListeners mgmtClusters 0 listeners clusters of
                       None \<Rightarrow> None
                     | Some (listeners, clusters) \<Rightarrow>
                         (let listeners = map (\<lambda>listener. listener\<lparr>BindToPort := False\<rparr>) listeners;
                              listeners = listeners @ [\<lparr>
                                Name = VirtualListenerName c,
                                Address = ''tcp://'' @ WildcardAddress c @ '':''
                                            @ itoa (ProxyListenPort (Mesh env)),
                                BindToPort = True,
                                UseOriginalDst = True,
                                Filters = [],
                                SSLContext = None\<rparr>]
                          in Some (listeners, clusters)))
               else Some (listeners, clusters))
      in case r of
           None \<Rightarrow> None
         | Some (listeners, clusters) \<Rightarrow>
             (let (listeners, clusters) =
                    (if ProxyHttpPort (Mesh env) > 0 then
                       (let httpOutbound =
                              buildOutboundHTTPRoutes c h (Mesh env) sidecar instances services
                                (IstioConfigStore env)
                        in (listeners @ [buildHTTPListener c h (Mesh env) sidecar instances None
                                           (LocalhostAddress c) (ProxyHttpPort (Mesh env))
                                           (RDSAll c) False],
                            clusters @ routeConfigsClusters h httpOutbound))
                     else (listeners, clusters))
              in Some (normalizeListeners h listeners, normalizeClusters h clusters)))"

section \<open>The reconciler of the specification\<close>

text \<open>
  The agent, its epoch table and its supervisor are in files of the repository
  that are not part of the sources at hand (the build file of package
  \<^verbatim>\<open>proxy\<close> lists \<^verbatim>\<open>agent.go\<close>). This section models them from the
  specification, sections 3, 4.2 and 4.4.
\<close>

text \<open>
  Modelled from the spec: the status of an epoch record, section 3, one of
  \<^verbatim>\<open>{Starting, Running, Draining, Exited(code, signal), Failed(reason)}\<close>;
  \<^verbatim>\<open>Exited\<close> and \<^verbatim>\<open>Failed\<close> are terminal.
\<close>

datatype Status = Starting | Running | Draining | Exited int int | Failed string

fun terminal :: "Status \<Rightarrow> bool" where
  "terminal (Exited code signal) = True"
| "terminal (Failed reason) = True"
| "terminal st = False"

text \<open>
  Modelled from the spec: the state machine per epoch of section 4.2. The edge
  from \<^verbatim>\<open>Running\<close> to \<^verbatim>\<open>Failed\<close> is not drawn there; section 4.4 takes
  it when the current epoch exits within the startup window.
\<close>

fun legal :: "Status \<Rightarrow> Status \<Rightarrow> bool" where
  "legal Starting Running = True"
| "legal Starting (Failed reason) = True"
| "legal Running Draining = True"
| "legal Running (Exited code signal) = True"
| "legal Running (Failed reason) = True"
| "legal Draining (Exited code signal) = True"
| "legal a b = False"

text \<open>
  Modelled from the spec: the artifact (payload, fingerprint, materialization
  path) and the epoch record \<^verbatim>\<open>{epoch, artifact, proc, status}\<close> of section 3.
  An epoch is an integer of the specification, without a bound.
\<close>

record Artifact =
  payload :: string
  fingerprint :: string
  Artifact_path :: string

record EpochRecord =
  epoch :: int
  artifact :: Artifact
  proc :: "int option"
  status :: Status

text \<open>
  Modelled from the spec: the epoch table of section 4.2. Epochs begin at 0
  (section 6), so \<^verbatim>\<open>lastIssued\<close> starts at \<open>- 1\<close>.
\<close>

record EpochTable =
  lastIssued :: int
  records :: "EpochRecord list"

definition emptyTable :: EpochTable where
  "emptyTable = \<lparr>lastIssued = - 1, records = []\<rparr>"

text \<open>
  Modelled from the spec: \<^verbatim>\<open>Allocate() -> epoch\<close>: returns
  \<^verbatim>\<open>lastIssued+1\<close>, updates \<^verbatim>\<open>lastIssued\<close>.
\<close>

definition Allocate :: "EpochTable \<Rightarrow> int \<times> EpochTable" where
  "Allocate t = (lastIssued t + 1, t\<lparr>lastIssued := lastIssued t + 1\<rparr>)"

text \<open>
  Modelled from the spec: \<^verbatim>\<open>Insert(record)\<close>: stores a new EpochRecord in
  \<^verbatim>\<open>Starting\<close>.
\<close>

definition Insert :: "EpochTable \<Rightarrow> EpochRecord \<Rightarrow> EpochTable" where
  "Insert t r = t\<lparr>records := records t @ [r\<lparr>status := Starting\<rparr>]\<rparr>"

text \<open>
  Modelled from the spec: \<^verbatim>\<open>Transition(e, newStatus)\<close>: asserts a legal
  transition and updates. An illegal transition, or one of an epoch that has no
  record, is the fatal programmer error: \<open>None\<close>.
\<close>

definition Transition :: "EpochTable \<Rightarrow> int \<Rightarrow> Status \<Rightarrow> EpochTable option" where
  "Transition t e newStatus =
     (case find (\<lambda>r. epoch r = e) (records t) of
        None \<Rightarrow> None
      | Some r \<Rightarrow>
          if legal (status r) newStatus
          then Some (t\<lparr>records :=
                 map (\<lambda>r. if epoch r = e then r\<lparr>status := newStatus\<rparr> else r) (records t)\<rparr>)
          else None)"

text \<open>
  Modelled from the spec: \<^verbatim>\<open>Active()\<close>: the epochs in non-terminal status,
  oldest first.
\<close>

definition Active :: "EpochTable \<Rightarrow> int list" where
  "Active t = sort (map epoch (filter (\<lambda>r. \<not> terminal (status r)) (records t)))"

text \<open>
  Modelled from the spec: \<^verbatim>\<open>Prune()\<close>: removes terminal records whose
  artifact files have been unlinked. The argument is the list of the files on
  disk.
\<close>

definition Prune :: "EpochTable \<Rightarrow> string list \<Rightarrow> EpochTable" where
  "Prune t disk =
     t\<lparr>records := filter (\<lambda>r. \<not> (terminal (status r)
                                  \<and> Artifact_path (artifact r) \<notin> set disk)) (records t)\<rparr>"

text \<open>
  Modelled from the spec: the agent of section 4.4. Its state is the epoch
  table, the active-epoch pointer \<^verbatim>\<open>current\<close> with
  \<^verbatim>\<open>currentFingerprint\<close>, and the artifact files on disk. \<^verbatim>\<open>trace\<close>
  records, in order, what the single worker does: each call of the generator,
  each allocation, materialization, insertion, start, transition, stop and
  unlink, and each retry it schedules. After a fatal programmer error the agent
  does nothing more. Timers, the rate limiter and the retry budget decide when
  a pass runs and whether another one follows, not what a pass does; they are
  not part of the state. The shutdown of section 4.4 ends an execution: the
  agent then takes no more events; it is not one of the inputs.
\<close>

datatype Event =
    EvRender | EvAllocate int | EvMaterialize int string | EvInsert int | EvStart int
  | EvTransition int Status | EvStop int | EvUnlink string | EvRetry | EvFatal

record Agent =
  table :: EpochTable
  current :: "int option"
  currentFingerprint :: "string option"
  disk :: "string list"
  trace :: "Event list"
  fatal :: bool

definition initAgent :: Agent where
  "initAgent = \<lparr>table = emptyTable, current = None, currentFingerprint = None,
                 disk = [], trace = [], fatal = False\<rparr>"

definition emit :: "Agent \<Rightarrow> Event list \<Rightarrow> Agent" where
  "emit s evs = (if fatal s then s else s\<lparr>trace := trace s @ evs\<rparr>)"

definition transition :: "Agent \<Rightarrow> int \<Rightarrow> Status \<Rightarrow> Agent" where
  "transition s e newStatus =
     (if fatal s then s
      else case Transition (table s) e newStatus of
             None \<Rightarrow> s\<lparr>trace := trace s @ [EvFatal], fatal := True\<rparr>
           | Some t \<Rightarrow> s\<lparr>table := t, trace := trace s @ [EvTransition e newStatus]\<rparr>)"

text \<open>
  Modelled from the spec: step 7 of the reconcile procedure: for every prior
  epoch still in \<^verbatim>\<open>Running\<close>, transition it to \<^verbatim>\<open>Draining\<close> and call
  \<^verbatim>\<open>Supervisor.Stop(graceful=true)\<close>.
\<close>

definition supersede :: "Agent \<Rightarrow> int \<Rightarrow> Agent" where
  "supersede s e =
     fold (\<lambda>p s. emit (transition s p Draining) [EvStop p])
          (map epoch (filter (\<lambda>r. status r = Running \<and> epoch r < e) (records (table s)))) s"

text \<open>
  Modelled from the spec: steps 4 to 8 of the reconcile procedure, for a payload
  and its fingerprint. \<^verbatim>\<open>writeOk\<close> and \<^verbatim>\<open>startOk\<close> say whether the
  materialization and \<^verbatim>\<open>Supervisor.Start\<close> succeed. The file of an epoch is
  \<^verbatim>\<open>envoy-rev<epoch>.json\<close> (section 6). A file system error is transient
  and a failed start transitions the epoch to \<^verbatim>\<open>Failed\<close>; both schedule a
  retry (section 7).
\<close>

definition applyArtifact :: "Agent \<Rightarrow> string \<Rightarrow> string \<Rightarrow> bool \<Rightarrow> bool \<Rightarrow> Agent" where
  "applyArtifact s pl fp writeOk startOk =
     (if fatal s then s
      else
        (let (e, t) = Allocate (table s);
             s = (emit s [EvAllocate e])\<lparr>table := t\<rparr>;
             path = ''envoy-rev'' @ itoa e @ ''.json''
         in if \<not> writeOk then emit s [EvRetry]
            else
              (let art = \<lparr>payload = pl, fingerprint = fp, Artifact_path = path\<rparr>;
                   s = (emit s [EvMaterialize e path])\<lparr>disk := disk s @ [path]\<rparr>;
                   s = (emit s [EvInsert e])\<lparr>table :=
                         Insert (table s)
                           \<lparr>epoch = e, artifact = art, proc = None, status = Starting\<rparr>\<rparr>
               in if \<not> startOk then emit (transition s e (Failed ''spawn'')) [EvRetry]
                  else
                    (let s = (emit s [EvStart e])\<lparr>table := (table s)\<lparr>records :=
                               map (\<lambda>r. if epoch r = e then r\<lparr>proc := Some e\<rparr> else r)
                                   (records (table s))\<rparr>\<rparr>;
                         s = transition s e Running;
                         s = supersede s e
                     in if fatal s then s
                        else s\<lparr>current := Some e, currentFingerprint := Some fp\<rparr>))))"

text \<open>
  Modelled from the spec: one pass of the reconcile procedure, steps 1 to 3,
  on the snapshot \<^verbatim>\<open>env\<close>. The generator \<^verbatim>\<open>render\<close> is the pure function
  injected at construction (section 9); it returns an error or the payload with
  its fingerprint.
\<close>

datatype RenderError = Transient | Permanent

definition reconcile ::
  "('env \<Rightarrow> RenderError + string \<times> string) \<Rightarrow> Agent \<Rightarrow> 'env \<Rightarrow> bool \<Rightarrow> bool \<Rightarrow> Agent" where
  "reconcile render s env writeOk startOk =
     (if fatal s then s
      else
        (let s = emit s [EvRender]
         in case render env of
              Inl Permanent \<Rightarrow> s
            | Inl Transient \<Rightarrow> emit s [EvRetry]
            | Inr (pl, fp) \<Rightarrow>
                if currentFingerprint s = Some fp then s
                else applyArtifact s pl fp writeOk startOk))"

text \<open>
  Modelled from the spec: the removal of an artifact file, section 3: when the
  epoch that referenced it is terminated and no newer epoch references the same
  path.
\<close>

definition unlinkArtifact :: "Agent \<Rightarrow> int \<Rightarrow> Agent" where
  "unlinkArtifact s e =
     (case find (\<lambda>r. epoch r = e) (records (table s)) of
        None \<Rightarrow> s
      | Some r \<Rightarrow>
          if terminal (status r)
             \<and> filter (\<lambda>r'. epoch r' > e \<and> Artifact_path (artifact r') = Artifact_path (artifact r))
                  (records (table s)) = []
          then (emit s [EvUnlink (Artifact_path (artifact r))])
                 \<lparr>disk := removeAll (Artifact_path (artifact r)) (disk s)\<rparr>
          else s)"

text \<open>
  Modelled from the spec: crash handling, section 4.4, when the exit channel
  yields \<^verbatim>\<open>{e, code, signal}\<close>. \<^verbatim>\<open>early\<close> says whether the exit occurred
  within the startup window. After an exit of the current epoch within the
  startup window the active configuration is considered broken: the epoch
  becomes \<^verbatim>\<open>Failed\<close> and there is no current epoch and no current
  fingerprint any more, so that the retry of the same environment snapshot is
  not a fingerprint match and allocates the next epoch (scenario 5 of section
  8). An exit of the current epoch after stabilization is the edge
  \<^verbatim>\<open>crash\<close> of the state machine, then the procedure is re-entered at step
  4 with the same artifact. An exit of another epoch records the exit status
  and prunes.
\<close>

definition handleExit :: "Agent \<Rightarrow> int \<Rightarrow> int \<Rightarrow> int \<Rightarrow> bool \<Rightarrow> bool \<Rightarrow> bool \<Rightarrow> Agent" where
  "handleExit s e code signal early writeOk startOk =
     (if fatal s then s
      else if current s = Some e then
        (if early then
           (let s = transition s e (Failed ''startup'')
            in if fatal s then s
               else emit (s\<lparr>current := None, currentFingerprint := None\<rparr>) [EvRetry])
         else
           (let s = transition s e (Exited code signal)
            in case find (\<lambda>r. epoch r = e) (records (table s)) of
                 None \<Rightarrow> s
               | Some r \<Rightarrow>
                   applyArtifact s (payload (artifact r)) (fingerprint (artifact r))
                     writeOk startOk))
      else
        (let s = transition s e (Exited code signal);
             s = (if fatal s then s else unlinkArtifact s e)
         in if fatal s then s else s\<lparr>table := Prune (table s) (disk s)\<rparr>))"

text \<open>
  Modelled from the spec: the merged event stream that the single worker
  drains (section 4.4), and an execution of the agent from its start.
\<close>

datatype 'env Input =
    ReconcilePass 'env bool bool
  | ExitEvent int int int bool bool bool

fun step :: "('env \<Rightarrow> RenderError + string \<times> string) \<Rightarrow> Agent \<Rightarrow> 'env Input \<Rightarrow> Agent" where
  "step render s (ReconcilePass env writeOk startOk) = reconcile render s env writeOk startOk"
| "step render s (ExitEvent e code signal early writeOk startOk) =
     handleExit s e code signal early writeOk startOk"

definition run :: "('env \<Rightarrow> RenderError + string \<times> string) \<Rightarrow> 'env Input list \<Rightarrow> Agent" where
  "run render inputs = fold (\<lambda>i s. step render s i) inputs initAgent"

text \<open>
  What a trace shows: the epochs allocated, the epochs for which a record has
  been inserted, and the transitions, each in the order of the trace.
\<close>

definition allocated :: "Event list \<Rightarrow> int list" where
  "allocated tr = concat (map (\<lambda>ev. case ev of EvAllocate e \<Rightarrow> [e] | _ \<Rightarrow> []) tr)"

definition inserted :: "Event list \<Rightarrow> int list" where
  "inserted tr = concat (map (\<lambda>ev. case ev of EvInsert e \<Rightarrow> [e] | _ \<Rightarrow> []) tr)"

definition transitions :: "Event list \<Rightarrow> (int \<times> Status) list" where
  "transitions tr = concat (map (\<lambda>ev. case ev of EvTransition e st \<Rightarrow> [(e, st)] | _ \<Rightarrow> []) tr)"

text \<open>
  The invariant of the agent that the proofs below maintain: every record has
  an epoch that has been issued, no two records have the same epoch, and the
  epochs allocated and inserted along the trace increase strictly and have all
  been issued.
\<close>

definition agentInv :: "Agent \<Rightarrow> bool" where
  "agentInv s =
     ((\<forall>r \<in> set (records (table s)). epoch r \<le> lastIssued (table s)) \<and>
      distinct (map epoch (records (table s))) \<and>
      sorted_wrt (<) (allocated (trace s)) \<and>
      (\<forall>e \<in> set (allocated (trace s)). e \<le> lastIssued (table s)) \<and>
      sorted_wrt (<) (inserted (trace s)) \<and>
      (\<forall>e \<in> set (inserted (trace s)). e \<le> lastIssued (table s)) \<and>
      set (map epoch (records (table s))) \<subseteq> set (inserted (trace s)))"

text \<open>
  The epochs that are in status \<^verbatim>\<open>Running\<close> after the events of a trace:
  those whose last transition in the trace is a transition to
  \<^verbatim>\<open>Running\<close>.
\<close>

definition runningAfter :: "Event list \<Rightarrow> int list" where
  "runningAfter tr =
     fold (\<lambda>ev rs. case ev of
                      EvTransition e st \<Rightarrow>
                        (if st = Running then e # removeAll e rs else removeAll e rs)
                    | _ \<Rightarrow> rs)
          tr []"

text \<open>
  A trace in which every transition of an epoch to \<^verbatim>\<open>Draining\<close> is made
  while that epoch and a later epoch are both in status \<^verbatim>\<open>Running\<close>. The
  first argument of \<open>hitlessFrom\<close> holds the events that come before the
  ones to inspect.
\<close>

fun hitlessFrom :: "Event list \<Rightarrow> Event list \<Rightarrow> bool" where
  "hitlessFrom pre [] = True"
| "hitlessFrom pre (ev # post) =
     ((case ev of
         EvTransition e st \<Rightarrow>
           st = Draining \<longrightarrow>
             e \<in> set (runningAfter pre) \<and> (\<exists>e' \<in> set (runningAfter pre). e < e')
       | _ \<Rightarrow> True) \<and>
      hitlessFrom (pre @ [ev]) post)"

definition hitless :: "Event list \<Rightarrow> bool" where
  "hitless tr = hitlessFrom [] tr"


text \<open>
  A generator for the examples: the environment is a string, the payload and
  its fingerprint are that string; the empty environment cannot be rendered.
\<close>

definition exampleRender :: "string \<Rightarrow> RenderError + string \<times> string" where
  "exampleRender env = (if env = [] then Inl Transient else Inr (env, env))"

section \<open>Concrete inputs\<close>

text \<open>
  Values for the parameters, used where a statement is evaluated at a concrete
  input. The names are strings an Envoy configuration would carry. The helpers
  are small functions of the right types: a route built from a rule remembers
  what the rule carried and is a catch-all when that is \<open>''catch-all''\<close>;
  \<^verbatim>\<open>GetByAddress\<close> finds the first listener with the address; the
  \<^verbatim>\<open>normalize\<close> methods drop repeated elements and order listeners by
  address; maps are ranged over in the order of their keys' insertion.
\<close>

definition exampleNames :: Names where
  "exampleNames = \<lparr>
     DefaultAccessLog = ''/dev/stdout'', LocalhostAddress = ''127.0.0.1'',
     WildcardAddress = ''0.0.0.0'', RDSName = ''rds'', SDSName = ''sds'', CDSName = ''cds'',
     LDSName = ''lds'', RDSAll = ''0'', ZipkinCollectorCluster = ''zipkin'',
     VirtualListenerName = ''virtual'', IngressTraceOperation = ''ingress'',
     ClusterTypeStrictDNS = ''strict_dns'', HTTPConnectionManager = ''http_connection_manager'',
     TCPProxyFilter = ''tcp_proxy'', MixerFilter = ''mixer'', decoder = ''decoder'',
     router = ''router'', read = ''read'', both = ''both'', auto = ''auto''\<rparr>"

definition exampleCluster :: "string \<Rightarrow> string \<Rightarrow> string Cluster" where
  "exampleCluster name kind = \<lparr>ServiceName = name, Type = kind, Hosts = [], Cluster_rest = name\<rparr>"

definition exampleRoute :: "string \<Rightarrow> string Cluster list \<Rightarrow> string HTTPRoute" where
  "exampleRoute what cs =
     \<lparr>HostRewrite = [], route_clusters = cs, OpaqueConfig = None, HTTPRoute_rest = what\<rparr>"

definition exampleHelpers :: "string Helpers" where
  "exampleHelpers = \<lparr>
     buildHTTPRoute = (\<lambda>rule port. exampleRoute (RouteRule_rest rule)
                         [exampleCluster (''out.'' @ Destination rule) ''sds'']),
     CatchAll = (\<lambda>route. HTTPRoute_rest route = ''catch-all''),
     buildOutboundCluster = (\<lambda>hostname port tags. exampleCluster (''out.'' @ hostname) ''sds''),
     buildInboundCluster = (\<lambda>port protocol timeout. exampleCluster (''in.'' @ itoa port) ''static''),
     buildCluster = (\<lambda>address name timeout.
                       (exampleCluster name ''strict_dns'')\<lparr>Hosts := [\<lparr>URL = ''tcp://'' @ address\<rparr>],
                          Cluster_rest := (case timeout of None \<Rightarrow> [] | Some t \<Rightarrow> t)\<rparr>),
     buildDefaultRoute = (\<lambda>cluster. exampleRoute ''catch-all'' [cluster]),
     buildInboundWebsocketRoute = (\<lambda>rule cluster. exampleRoute ''websocket'' [cluster]),
     buildTCPRoute = (\<lambda>cluster addresses. ServiceName cluster),
     buildVirtualHost = (\<lambda>service port suffix routes.
                           \<lparr>VirtualHost_Name = Hostname service @ '':'' @ itoa (Port port),
                            Domains = [Hostname service], Routes = routes\<rparr>),
     External = (\<lambda>service. Service_rest service = ''external''),
     protoDurationToMS = (\<lambda>d. case d of None \<Rightarrow> 0 | Some t \<Rightarrow> int (length t)),
     buildZipkinTracing = (\<lambda>mesh. ZipkinAddress mesh),
     buildFaultFilters = (\<lambda>routeConfig. []),
     mixerHTTPRouteConfig = (\<lambda>role service. service),
     mixerTCPConfig = (\<lambda>role. IPAddress role),
     buildMixerOpaqueConfig = (\<lambda>check forward. ''mixer''),
     buildListenerSSLContext = (\<lambda>path. path),
     normalizeListeners = (\<lambda>listeners. sort_key Address (remdups listeners)),
     normalizeClusters = (\<lambda>clusters. sort_key ServiceName (remdups clusters)),
     normalizeRouteConfigs = (\<lambda>configs. configs),
     GetByAddress = (\<lambda>listeners addr. find (\<lambda>l. Address l = addr) listeners),
     EnsurePort = (\<lambda>configs port.
                     if port \<in> set (map fst configs) then configs
                     else configs @ [(port, \<lparr>VirtualHosts = []\<rparr>)]),
     routeConfigClusters = (\<lambda>config.
                     concat (map (\<lambda>host. concat (map route_clusters (Routes host)))
                                 (VirtualHosts config))),
     routeConfigsClusters = (\<lambda>configs.
                     concat (map (\<lambda>(port, config).
                        concat (map (\<lambda>host. concat (map route_clusters (Routes host)))
                                    (VirtualHosts config))) configs)),
     rangeStrings = (\<lambda>keys. keys),
     rangeConfigs = (\<lambda>configs. configs)\<rparr>"

definition examplePort :: "int \<Rightarrow> Protocol \<Rightarrow> string Port" where
  "examplePort n proto = \<lparr>Port = n, Protocol = proto, Port_rest = []\<rparr>"

definition exampleService :: "string Service" where
  "exampleService = \<lparr>Hostname = ''a.default.svc'', Service_Address = ''10.0.0.1'',
                      Ports = [examplePort 80 ProtocolHTTP], Service_rest = []\<rparr>"

definition exampleRule :: "string \<Rightarrow> string \<Rightarrow> string RouteRule" where
  "exampleRule dest what = \<lparr>Destination = dest, WebsocketUpgrade = False, RouteRule_rest = what\<rparr>"

definition exampleMesh :: "AuthPolicy \<Rightarrow> int \<Rightarrow> int \<Rightarrow> string ProxyMeshConfig" where
  "exampleMesh policy listenPort httpPort = \<lparr>
     ProxyAdminPort = 15000, DiscoveryAddress = ''istio-pilot:8080'',
     ConnectTimeout = Some ''1s'', DiscoveryRefreshDelay = Some ''30s'',
     StatsdUdpAddress = ''10.0.0.9:9125'', ZipkinAddress = [], MixerAddress = [],
     EgressProxyAddress = [], ProxyListenPort = listenPort, ProxyHttpPort = httpPort,
     AuthPolicy = policy, AuthCertsPath = ''/etc/certs'', ProxyMeshConfig_rest = []\<rparr>"

definition exampleNode :: "string Node" where
  "exampleNode = \<lparr>Node_Type = Sidecar, IPAddress = ''10.1.1.1'',
                   Domain = ''default.svc.cluster.local'', Node_rest = []\<rparr>"

definition exampleInstance :: "int \<Rightarrow> Protocol \<Rightarrow> string ServiceInstance" where
  "exampleInstance n proto = \<lparr>
     Endpoint = \<lparr>Endpoint_Address = ''10.1.1.1'', Endpoint_Port = n,
                 ServicePort = examplePort n proto\<rparr>,
     Service = exampleService, ServiceInstance_rest = []\<rparr>"

definition exampleStore :: "string IstioConfigStore" where
  "exampleStore = \<lparr>RouteRulesBySource = (\<lambda>instances. []),
                    RouteRulesByDestination = (\<lambda>instances. [])\<rparr>"

definition exampleEnv ::
  "string ServiceInstance list \<Rightarrow> string Service list \<Rightarrow> string Port list \<Rightarrow>
     string ProxyMeshConfig \<Rightarrow> string Environment" where
  "exampleEnv instances services mports mesh = \<lparr>
     HostInstances = (\<lambda>addrs. instances), Services = services,
     ManagementPorts = (\<lambda>addr. mports),
     IstioConfigStore = exampleStore,
     Mesh = mesh\<rparr>"

text \<open>
  An operating system on which no call fails, with a serialization that shows
  the statsd address of the configuration; a configuration for each mesh; the
  file system with one artifact on disk.
\<close>

definition exampleSys :: "string Sys" where
  "exampleSys = \<lparr>
     MarshalIndent = (\<lambda>conf. Inr (''statsd='' @ StatsdUDPIPAddress conf)),
     V2 = False, glogInfof = (\<lambda>line fs. fs), glogError = (\<lambda>err fs. fs),
     createErr = (\<lambda>fname. None), writeErr = (\<lambda>fname. None),
     closeErr = (\<lambda>fname. None), stderrErr = None\<rparr>"

definition exampleConfig :: "string \<Rightarrow> string Config" where
  "exampleConfig statsd =
     buildConfig exampleNames exampleHelpers [] [] True
       ((exampleMesh ProxyMeshConfig_NONE 15001 0)\<lparr>StatsdUdpAddress := statsd\<rparr>)"

definition exampleFS :: FS where
  "exampleFS = \<lparr>files = [''envoy-rev0.json'' \<mapsto> ''statsd=10.0.0.9:9125''],
                 links = [''envoy.json'' \<mapsto> ''envoy-rev0.json''], stderr = []\<rparr>"

definition exampleProc :: Proc where
  "exampleProc = \<lparr>fsys = exampleFS, ops = []\<rparr>"

text \<open>
  A verbose process whose \<^verbatim>\<open>glog\<close> appends each line to the log file
  \<^verbatim>\<open>/tmp/pilot.INFO\<close>.
\<close>

definition exampleVerboseSys :: "string Sys" where
  "exampleVerboseSys = exampleSys\<lparr>
     V2 := True,
     glogInfof := (\<lambda>line fs. fs\<lparr>files := (files fs)(''/tmp/pilot.INFO'' \<mapsto>
        (case files fs ''/tmp/pilot.INFO'' of None \<Rightarrow> [] | Some c \<Rightarrow> c) @ line)\<rparr>)\<rparr>"

text \<open>A service with two HTTP ports, so that the map of route configurations built for it
  has two keys.\<close>

definition twoPortService :: "string Service" where
  "twoPortService = \<lparr>Hostname = ''a.default.svc'', Service_Address = ''10.0.0.1'',
     Ports = [examplePort 80 ProtocolHTTP, examplePort 8080 ProtocolHTTP], Service_rest = []\<rparr>"

section \<open>Properties of route construction\<close>

lemma collectRouteRules_closed:
  "collectRouteRules h service servicePort rules acc =
     (let built = map (\<lambda>r. buildHTTPRoute h r servicePort)
                    (filter (\<lambda>r. Destination r = Hostname service) rules)
      in if \<exists>r \<in> set built. CatchAll h r
         then (acc @ takeWhile (\<lambda>r. \<not> CatchAll h r) built
                   @ [hd (dropWhile (\<lambda>r. \<not> CatchAll h r) built)], False)
         else (acc @ built, True))"
  by (induction rules arbitrary: acc) (auto simp: Let_def)

text \<open>
  Claim C10. For a service port whose protocol is HTTP, HTTP2 or GRPC,
  \<^verbatim>\<open>buildDestinationHTTPRoutes\<close> returns a list that is not empty. Let
  \<open>built\<close> be the routes of the rules for the host name of the service, in
  the order of the rules. When one of them is a catch-all, the result is the
  routes up to and including the first catch-all: no later rule is processed
  and no default route is appended. When none is, the result is all of them
  followed by the default route of the outbound cluster of the service port,
  as its last element.
\<close>

theorem buildDestinationHTTPRoutes_http:
  assumes "Protocol servicePort = ProtocolHTTP \<or> Protocol servicePort = ProtocolHTTP2
             \<or> Protocol servicePort = ProtocolGRPC"
  shows "let built = map (\<lambda>r. buildHTTPRoute h r servicePort)
                       (filter (\<lambda>r. Destination r = Hostname service) rules);
             result = buildDestinationHTTPRoutes h service servicePort rules
         in result \<noteq> [] \<and>
            result =
              (if \<exists>r \<in> set built. CatchAll h r
               then takeWhile (\<lambda>r. \<not> CatchAll h r) built
                      @ [hd (dropWhile (\<lambda>r. \<not> CatchAll h r) built)]
               else built @ [buildDefaultRoute h
                               (buildOutboundCluster h (Hostname service) servicePort None)])"
  using assms
  by (auto simp: buildDestinationHTTPRoutes_def collectRouteRules_closed Let_def)

theorem buildDestinationHTTPRoutes_http_witness:
  "Protocol (examplePort 80 ProtocolHTTP) = ProtocolHTTP \<and>
   buildDestinationHTTPRoutes exampleHelpers exampleService (examplePort 80 ProtocolHTTP)
     [exampleRule ''b.default.svc'' ''other'', exampleRule ''a.default.svc'' ''match'',
      exampleRule ''a.default.svc'' ''catch-all'', exampleRule ''a.default.svc'' ''late'']
   = [exampleRoute ''match'' [exampleCluster ''out.a.default.svc'' ''sds''],
      exampleRoute ''catch-all'' [exampleCluster ''out.a.default.svc'' ''sds'']] \<and>
   buildDestinationHTTPRoutes exampleHelpers exampleService (examplePort 80 ProtocolHTTP)
     [exampleRule ''b.default.svc'' ''other'', exampleRule ''a.default.svc'' ''match'']
   = [exampleRoute ''match'' [exampleCluster ''out.a.default.svc'' ''sds''],
      exampleRoute ''catch-all'' [exampleCluster ''out.a.default.svc'' ''sds'']]"
  using
    buildDestinationHTTPRoutes_http [of "examplePort 80 ProtocolHTTP" exampleHelpers
      exampleService
      "[exampleRule ''b.default.svc'' ''other'', exampleRule ''a.default.svc'' ''match'',
        exampleRule ''a.default.svc'' ''catch-all'', exampleRule ''a.default.svc'' ''late'']"]
    buildDestinationHTTPRoutes_http [of "examplePort 80 ProtocolHTTP" exampleHelpers
      exampleService
      "[exampleRule ''b.default.svc'' ''other'', exampleRule ''a.default.svc'' ''match'']"]
  by (simp add: examplePort_def exampleHelpers_def exampleService_def exampleRule_def
        exampleRoute_def exampleCluster_def Let_def)

section \<open>Properties of the standard library model\<close>

text \<open>Decimal printing is injective: two integers with the same digits are equal.\<close>

lemma digit_char_table:
  "\<forall>k \<in> set [0..<10]. (of_char (''0123456789'' ! k) :: nat) - 48 = k"
  by (simp add: upt_rec)

lemma digit_char_val: "n < 10 \<Longrightarrow> (of_char (''0123456789'' ! n) :: nat) - 48 = n"
  using digit_char_table by simp

lemma digit_char_set: "n < 10 \<Longrightarrow> ''0123456789'' ! n \<in> set ''0123456789''"
  by (rule nth_mem) simp

lemma digits_value: "foldl (\<lambda>a ch. 10 * a + ((of_char ch :: nat) - 48)) 0 (digits n) = n"
proof (induction n rule: digits.induct)
  case (1 n)
  show ?case
  proof (cases "n < 10")
    case True
    then show ?thesis by (subst digits.simps) (simp add: digit_char_val)
  next
    case False
    then have "foldl (\<lambda>a ch. 10 * a + ((of_char ch :: nat) - 48)) 0 (digits (n div 10)) = n div 10"
      using "1.IH" by simp
    moreover have "(of_char (''0123456789'' ! (n mod 10)) :: nat) - 48 = n mod 10"
      by (rule digit_char_val) simp
    ultimately show ?thesis using False
      by (subst digits.simps) simp
  qed
qed

lemma digits_inj: "digits m = digits n \<Longrightarrow> m = n"
proof -
  assume "digits m = digits n"
  then have "foldl (\<lambda>a ch. 10 * a + ((of_char ch :: nat) - 48)) 0 (digits m)
           = foldl (\<lambda>a ch. 10 * a + ((of_char ch :: nat) - 48)) 0 (digits n)" by simp
  then show "m = n" by (simp only: digits_value)
qed

lemma digits_chars: "set (digits n) \<subseteq> set ''0123456789''"
proof (induction n rule: digits.induct)
  case (1 n)
  show ?case
  proof (cases "n < 10")
    case True
    then show ?thesis using digit_char_set[of n] by (subst digits.simps) simp
  next
    case False
    then have "set (digits (n div 10)) \<subseteq> set ''0123456789''" using "1.IH" by simp
    moreover have "''0123456789'' ! (n mod 10) \<in> set ''0123456789''"
      by (rule digit_char_set) simp
    ultimately show ?thesis using False by (subst digits.simps) simp
  qed
qed

lemma digits_no_minus: "digits n \<noteq> CHR ''-'' # s"
proof
  assume "digits n = CHR ''-'' # s"
  then have "CHR ''-'' \<in> set (digits n)" by simp
  then have "CHR ''-'' \<in> set ''0123456789''" using digits_chars by blast
  then show False by simp
qed

lemma itoa_inj: "itoa i = itoa j \<Longrightarrow> i = j"
proof -
  assume eq: "itoa i = itoa j"
  consider "i < 0" "j < 0" | "i < 0" "\<not> j < 0" | "\<not> i < 0" "j < 0" | "\<not> i < 0" "\<not> j < 0"
    by blast
  then show "i = j"
  proof cases
    case 1
    with eq have "digits (nat (- i)) = digits (nat (- j))" by (simp add: itoa_def)
    then have "nat (- i) = nat (- j)" by (rule digits_inj)
    with 1 show ?thesis by simp
  next
    case 2
    with eq have "digits (nat j) = CHR ''-'' # digits (nat (- i))" by (simp add: itoa_def)
    then show ?thesis using digits_no_minus by blast
  next
    case 3
    with eq have "digits (nat i) = CHR ''-'' # digits (nat (- j))" by (simp add: itoa_def)
    then show ?thesis using digits_no_minus by blast
  next
    case 4
    with eq have "digits (nat i) = digits (nat j)" by (simp add: itoa_def)
    then have "nat i = nat j" by (rule digits_inj)
    with 4 show ?thesis by simp
  qed
qed


lemma itoa_examples: "itoa 15001 = ''15001''" "itoa (- 7) = ''-7''" "itoa 0 = ''0''"
  by (simp_all add: itoa_def digits.simps)


section \<open>Evaluation at concrete inputs\<close>

lemmas example_defs = exampleNames_def exampleHelpers_def exampleCluster_def exampleRoute_def
  examplePort_def exampleService_def exampleRule_def exampleMesh_def exampleNode_def
  exampleInstance_def exampleStore_def exampleEnv_def exampleSys_def exampleConfig_def
  exampleFS_def exampleProc_def exampleVerboseSys_def

lemmas sidecar_defs = buildSidecar_def buildInboundListeners_def inboundListenersLoop_def
  inboundListener_def buildOutboundListeners_def buildOutboundTCPListeners_def
  buildOutboundHTTPRoutes_def buildMgmtPortListeners_def buildHTTPListener_def
  buildTCPListener_def applyInboundAuth_def itoa_def digits.simps Let_def

section \<open>Properties of writing the configuration\<close>

lemmas write_defs = WriteFile_def logConfiguration_def Write_def osCreate_def fileClose_def
  multierrorAppend_def resolve_def buildConfig_def Let_def

text \<open>
  Claim C2 as stated fails on \<^verbatim>\<open>WriteFile\<close>. Asked to write the
  configuration to \<^verbatim>\<open>envoy-rev1.json\<close>, it creates that file, writes the
  payload into it and closes it: the first write goes to the final name, and
  there is no second name and no rename. Asked to write to the path of the
  artifact that is on disk, it replaces the content of that file.
\<close>

theorem WriteFile_in_place_counterexample:
  "ops (snd (WriteFile exampleSys (exampleConfig ''10.0.0.7:9125'') ''envoy-rev1.json'' exampleProc))
     = [OpCreate ''envoy-rev1.json'',
        OpWrite ''envoy-rev1.json'' ''statsd=10.0.0.7:9125'',
        OpClose ''envoy-rev1.json''] \<and>
   files (fsys exampleProc) ''envoy-rev0.json'' = Some ''statsd=10.0.0.9:9125'' \<and>
   files (fsys (snd (WriteFile exampleSys (exampleConfig ''10.0.0.7:9125'') ''envoy-rev0.json''
                       exampleProc)))
     ''envoy-rev0.json'' = Some ''statsd=10.0.0.7:9125''"
  by (simp add: example_defs write_defs)

text \<open>
  The artifact on disk is also replaced through a name that is a link to it,
  and a verbose process changes a second file, the log file of
  \<^verbatim>\<open>glog\<close>, before it creates the one it was asked for.
\<close>

lemma WriteFile_through_link:
  "files (fsys (snd (WriteFile exampleSys (exampleConfig ''10.0.0.7:9125'') ''envoy.json''
                       exampleProc)))
     ''envoy-rev0.json'' = Some ''statsd=10.0.0.7:9125'' \<and>
   ops (snd (WriteFile exampleSys (exampleConfig ''10.0.0.7:9125'') ''envoy.json'' exampleProc))
     = [OpCreate ''envoy.json'',
        OpWrite ''envoy-rev0.json'' ''statsd=10.0.0.7:9125'',
        OpClose ''envoy-rev0.json'']"
  by (simp add: example_defs write_defs)

lemma WriteFile_verbose_log_file:
  "files (fsys exampleProc) ''/tmp/pilot.INFO'' = None \<and>
   files (fsys (snd (WriteFile exampleVerboseSys (exampleConfig ''10.0.0.7:9125'')
                       ''envoy-rev1.json'' exampleProc)))
     ''/tmp/pilot.INFO'' = Some ''writing configuration to envoy-rev1.json'' \<and>
   stderr (fsys (snd (WriteFile exampleVerboseSys (exampleConfig ''10.0.0.7:9125'')
                        ''envoy-rev1.json'' exampleProc)))
     = ''statsd=10.0.0.7:9125'' \<and>
   ops (snd (WriteFile exampleVerboseSys (exampleConfig ''10.0.0.7:9125'') ''envoy-rev1.json''
               exampleProc))
     = [OpCreate ''envoy-rev1.json'',
        OpWrite ''envoy-rev1.json'' ''statsd=10.0.0.7:9125'',
        OpClose ''envoy-rev1.json'']"
  by (simp add: example_defs write_defs)

lemma logConfiguration_ops: "ops (logConfiguration sys conf fname st) = ops st"
  by (simp add: logConfiguration_def Write_def Let_def
           split: option.splits sum.splits prod.splits)

lemma logConfiguration_quiet: "\<not> V2 sys \<Longrightarrow> logConfiguration sys conf fname st = st"
  by (simp add: logConfiguration_def)

text \<open>
  Claim C2, amended. Let \<open>st1\<close> be the state after the block of
  \<^verbatim>\<open>WriteFile\<close> under \<^verbatim>\<open>glog.V(2)\<close>, which is the state before when
  \<^verbatim>\<open>glog.V(2)\<close> is false, and let \<open>file\<close> be the file that \<^verbatim>\<open>fname\<close>
  denotes then (the target, when \<^verbatim>\<open>fname\<close> is a link). After that block,
  \<^verbatim>\<open>WriteFile\<close> leaves every file other than \<open>file\<close> as it is and changes
  no link. That block makes no call on a file. The first call of
  \<^verbatim>\<open>WriteFile\<close> on a file is \<^verbatim>\<open>os.Create\<close> of \<^verbatim>\<open>fname\<close>, and every
  later call is a write to \<open>file\<close> or its \<^verbatim>\<open>Close\<close>: there is no temporary
  name and no rename. When it returns no error, the calls are exactly: create
  \<^verbatim>\<open>fname\<close>, write the serialized configuration to \<open>file\<close>, close it; and
  \<open>file\<close> then holds the serialized configuration.
\<close>

theorem WriteFile_in_place:
  "let st1 = logConfiguration sys conf fname st;
       file = resolve (fsys st1) fname;
       (err, st') = WriteFile sys conf fname st
   in (\<not> V2 sys \<longrightarrow> st1 = st) \<and>
      ops st1 = ops st \<and>
      (\<forall>p. p \<noteq> file \<longrightarrow> files (fsys st') p = files (fsys st1) p) \<and>
      links (fsys st') = links (fsys st1) \<and>
      stderr (fsys st') = stderr (fsys st1) \<and>
      (\<exists>calls. ops st' = ops st @ OpCreate fname # calls \<and>
         (\<forall>call \<in> set calls. call = OpClose file \<or> (\<exists>out. call = OpWrite file out))) \<and>
      (err = None \<longrightarrow>
         (\<exists>out. MarshalIndent sys conf = Inr out \<and>
                files (fsys st') file = Some out \<and>
                ops st' = ops st @ [OpCreate fname, OpWrite file out, OpClose file]))"
proof -
  define st1 where "st1 = logConfiguration sys conf fname st"
  have quiet: "\<not> V2 sys \<longrightarrow> st1 = st"
    by (simp add: st1_def logConfiguration_quiet)
  have calls: "ops st1 = ops st"
    by (simp add: st1_def logConfiguration_ops)
  have "let file = resolve (fsys st1) fname;
            (err, st') =
              (case osCreate sys fname st1 of
                 (Inl e, st2) \<Rightarrow> (Some e, st2)
               | (Inr file, st2) \<Rightarrow>
                   (case Write sys conf (File file) st2 of
                      (Some e, st3) \<Rightarrow>
                        (case fileClose sys file st3 of
                           (cerr, st4) \<Rightarrow> (Some (multierrorAppend e cerr), st4))
                    | (None, st3) \<Rightarrow> fileClose sys file st3))
        in (\<forall>p. p \<noteq> file \<longrightarrow> files (fsys st') p = files (fsys st1) p) \<and>
           links (fsys st') = links (fsys st1) \<and>
           stderr (fsys st') = stderr (fsys st1) \<and>
           (\<exists>calls. ops st' = ops st1 @ OpCreate fname # calls \<and>
              (\<forall>call \<in> set calls. call = OpClose file \<or> (\<exists>out. call = OpWrite file out))) \<and>
           (err = None \<longrightarrow>
              (\<exists>out. MarshalIndent sys conf = Inr out \<and>
                     files (fsys st') file = Some out \<and>
                     ops st' = ops st1 @ [OpCreate fname, OpWrite file out, OpClose file]))"
    by (auto simp: Write_def osCreate_def fileClose_def Let_def resolve_def
             split: option.splits sum.splits prod.splits if_splits)
  then show ?thesis
    using quiet
    unfolding WriteFile_def Let_def st1_def[symmetric] calls
    by (simp add: case_prod_beta split: sum.splits option.splits)
qed

theorem WriteFile_in_place_witness:
  "fst (WriteFile exampleVerboseSys (exampleConfig ''10.0.0.7:9125'') ''envoy.json'' exampleProc)
     = None \<and>
   resolve (fsys (logConfiguration exampleVerboseSys (exampleConfig ''10.0.0.7:9125'')
                    ''envoy.json'' exampleProc)) ''envoy.json'' = ''envoy-rev0.json'' \<and>
   files (fsys (snd (WriteFile exampleVerboseSys (exampleConfig ''10.0.0.7:9125'') ''envoy.json''
                       exampleProc)))
     ''envoy-rev0.json'' = Some ''statsd=10.0.0.7:9125'' \<and>
   files (fsys (snd (WriteFile exampleVerboseSys (exampleConfig ''10.0.0.7:9125'') ''envoy.json''
                       exampleProc)))
     ''/tmp/pilot.INFO'' = Some ''writing configuration to envoy.json'' \<and>
   fst (WriteFile exampleSys (exampleConfig ''10.0.0.7:9125'') ''envoy-rev1.json'' exampleProc)
     = None \<and>
   logConfiguration exampleSys (exampleConfig ''10.0.0.7:9125'') ''envoy-rev1.json'' exampleProc
     = exampleProc \<and>
   files (fsys (snd (WriteFile exampleSys (exampleConfig ''10.0.0.7:9125'') ''envoy-rev1.json''
                       exampleProc)))
     ''envoy-rev1.json'' = Some ''statsd=10.0.0.7:9125'' \<and>
   files (fsys (snd (WriteFile exampleSys (exampleConfig ''10.0.0.7:9125'') ''envoy-rev1.json''
                       exampleProc)))
     ''envoy-rev0.json'' = Some ''statsd=10.0.0.9:9125''"
  using WriteFile_in_place [of exampleVerboseSys "exampleConfig ''10.0.0.7:9125''" "''envoy.json''"
          exampleProc]
        WriteFile_in_place [of exampleSys "exampleConfig ''10.0.0.7:9125''" "''envoy-rev1.json''"
          exampleProc]
  by (simp add: example_defs write_defs)


section \<open>Properties of the proxy configuration\<close>

text \<open>
  Claim C6. For every mesh configuration, whatever the listeners, the clusters
  and the \<^verbatim>\<open>lds\<close> flag: the admin block of the configuration that
  \<^verbatim>\<open>buildConfig\<close> returns has the address \<^verbatim>\<open>tcp://\<close>, the local address,
  a colon and \<^verbatim>\<open>ProxyAdminPort\<close> in decimal; its SDS and its CDS cluster are
  the cluster that \<^verbatim>\<open>buildCluster\<close> makes of \<^verbatim>\<open>DiscoveryAddress\<close>, the
  name of the discovery service and \<^verbatim>\<open>ConnectTimeout\<close>, each with the
  refresh delay \<^verbatim>\<open>protoDurationToMS(DiscoveryRefreshDelay)\<close>; and the statsd
  address is \<^verbatim>\<open>StatsdUdpAddress\<close>.
\<close>

theorem buildConfig_options:
  "let out = buildConfig c h listeners clusters lds mesh
   in Admin_Address (Admin out)
        = ''tcp://'' @ LocalhostAddress c @ '':'' @ itoa (ProxyAdminPort mesh) \<and>
      SDS (ClusterManager out) = Some \<lparr>
        DiscoveryCluster_Cluster =
          buildCluster h (DiscoveryAddress mesh) (SDSName c) (ConnectTimeout mesh),
        DiscoveryCluster_RefreshDelayMs = protoDurationToMS h (DiscoveryRefreshDelay mesh)\<rparr> \<and>
      CDS (ClusterManager out) = Some \<lparr>
        DiscoveryCluster_Cluster =
          buildCluster h (DiscoveryAddress mesh) (CDSName c) (ConnectTimeout mesh),
        DiscoveryCluster_RefreshDelayMs = protoDurationToMS h (DiscoveryRefreshDelay mesh)\<rparr> \<and>
      StatsdUDPIPAddress out = StatsdUdpAddress mesh"
  by (simp add: buildConfig_def Let_def)


section \<open>Properties of the inbound listeners\<close>

lemma SSLContext_buildHTTPListener:
  "SSLContext (buildHTTPListener c h mesh role instances routeConfig ip port rds remote) = None"
  by (simp add: buildHTTPListener_def Let_def)

lemma SSLContext_inboundListener:
  "l \<in> set (inboundListener c h mesh sidecar instances config instance cluster)
     \<Longrightarrow> SSLContext l = None"
  by (auto simp: inboundListener_def Let_def SSLContext_buildHTTPListener buildTCPListener_def
           split: if_splits)

lemma fold_invariant:
  assumes "P acc" and "\<And>x a. x \<in> set xs \<Longrightarrow> P a \<Longrightarrow> P (f x a)"
  shows "P (fold f xs acc)"
  using assms by (induction xs arbitrary: acc) auto

lemma SSLContext_inboundListenersLoop:
  "\<forall>l \<in> set (fst (inboundListenersLoop c h mesh sidecar instances config)). SSLContext l = None"
  unfolding inboundListenersLoop_def
proof (rule fold_invariant)
  show "\<forall>l \<in> set (fst ([], [])). SSLContext l = None" by simp
next
  fix inst :: "'a ServiceInstance" and a :: "'a Listeners \<times> 'a Clusters"
  assume "\<forall>l \<in> set (fst a). SSLContext l = None"
  then show "\<forall>l \<in> set (fst ((\<lambda>(listeners, clusters).
             (let endpoint = Endpoint inst;
                  servicePort = ServicePort endpoint;
                  protocol = Protocol servicePort;
                  cluster = buildInboundCluster h (Endpoint_Port endpoint) protocol
                              (ConnectTimeout mesh)
              in (listeners @ inboundListener c h mesh sidecar instances config
                                inst cluster,
                  clusters @ [cluster]))) a)). SSLContext l = None"
    by (cases a) (auto simp: Let_def dest: SSLContext_inboundListener)
qed

text \<open>
  Claim C7. Let \<open>built\<close> be the listeners that the first loop of
  \<^verbatim>\<open>buildInboundListeners\<close> has built. When the policy of the mesh is
  \<^verbatim>\<open>MUTUAL_TLS\<close>, the function returns each of them with the SSL context
  that \<^verbatim>\<open>buildListenerSSLContext\<close> makes of \<^verbatim>\<open>AuthCertsPath\<close>, and
  nothing else changed. When the policy is \<^verbatim>\<open>NONE\<close>, it returns them as
  they are, and none of them has an SSL context.
\<close>

theorem buildInboundListeners_auth:
  "let built = fst (inboundListenersLoop c h mesh sidecar instances config);
       listeners = fst (buildInboundListeners c h mesh sidecar instances config)
   in (AuthPolicy mesh = ProxyMeshConfig_MUTUAL_TLS \<longrightarrow>
         listeners = map (\<lambda>l. l\<lparr>SSLContext :=
                           Some (buildListenerSSLContext h (AuthCertsPath mesh))\<rparr>) built) \<and>
      (AuthPolicy mesh = ProxyMeshConfig_NONE \<longrightarrow>
         listeners = built \<and> (\<forall>l \<in> set listeners. SSLContext l = None))"
  by (auto simp: buildInboundListeners_def applyInboundAuth_def Let_def
        SSLContext_inboundListenersLoop split: prod.splits)


theorem buildInboundListeners_auth_witness:
  "AuthPolicy (exampleMesh ProxyMeshConfig_MUTUAL_TLS 15001 0) = ProxyMeshConfig_MUTUAL_TLS \<and>
   map (\<lambda>l. (Name l, SSLContext l))
     (fst (buildInboundListeners exampleNames exampleHelpers
             (exampleMesh ProxyMeshConfig_MUTUAL_TLS 15001 0) exampleNode
             [exampleInstance 8080 ProtocolHTTP, exampleInstance 9000 ProtocolTCP]
             exampleStore))
   = [(''http_10.1.1.1_8080'', Some ''/etc/certs''), (''tcp_10.1.1.1_9000'', Some ''/etc/certs'')] \<and>
   AuthPolicy (exampleMesh ProxyMeshConfig_NONE 15001 0) = ProxyMeshConfig_NONE \<and>
   map (\<lambda>l. (Name l, SSLContext l))
     (fst (buildInboundListeners exampleNames exampleHelpers
             (exampleMesh ProxyMeshConfig_NONE 15001 0) exampleNode
             [exampleInstance 8080 ProtocolHTTP, exampleInstance 9000 ProtocolTCP]
             exampleStore))
   = [(''http_10.1.1.1_8080'', None), (''tcp_10.1.1.1_9000'', None)]"
  using
    buildInboundListeners_auth [of exampleNames exampleHelpers
      "exampleMesh ProxyMeshConfig_MUTUAL_TLS 15001 0" exampleNode
      "[exampleInstance 8080 ProtocolHTTP, exampleInstance 9000 ProtocolTCP]"
      exampleStore]
    buildInboundListeners_auth [of exampleNames exampleHelpers
      "exampleMesh ProxyMeshConfig_NONE 15001 0" exampleNode
      "[exampleInstance 8080 ProtocolHTTP, exampleInstance 9000 ProtocolTCP]"
      exampleStore]
  by (simp add: example_defs sidecar_defs)

section \<open>Properties of the sidecar\<close>

text \<open>
  The management listeners and their clusters are built in step. Two of them
  with the same address are built from the same port, so they are equal, and
  so are their clusters.
\<close>

lemma Address_buildTCPListener:
  "Address (buildTCPListener c cfg ip port) = ''tcp://'' @ ip @ '':'' @ itoa port"
  by (simp add: buildTCPListener_def)

lemma buildMgmtPortListeners_pairs:
  "length (fst (buildMgmtPortListeners c h mesh mports ip))
     = length (snd (buildMgmtPortListeners c h mesh mports ip)) \<and>
   (\<forall>p \<in> set (zip (fst (buildMgmtPortListeners c h mesh mports ip))
                    (snd (buildMgmtPortListeners c h mesh mports ip))).
      \<exists>port. p = (buildTCPListener c
                     \<lparr>TCPRouteConfig_Routes =
                        [buildTCPRoute h (buildInboundCluster h port ProtocolTCP (ConnectTimeout mesh))
                           [ip]]\<rparr> ip port,
                   buildInboundCluster h port ProtocolTCP (ConnectTimeout mesh)))"
  (is "?P (buildMgmtPortListeners c h mesh mports ip)")
  unfolding buildMgmtPortListeners_def
proof (rule fold_invariant)
  show "?P ([], [])" by simp
next
  fix mPort :: "'a Port" and a :: "'a Listeners \<times> 'a Clusters"
  assume a: "?P a"
  obtain ls cs where lc: "a = (ls, cs)" by (cases a)
  let ?cl = "buildInboundCluster h (Port mPort) ProtocolTCP (ConnectTimeout mesh)"
  let ?l = "buildTCPListener c \<lparr>TCPRouteConfig_Routes = [buildTCPRoute h ?cl [ip]]\<rparr> ip (Port mPort)"
  have "?P (ls @ [?l], cs @ [?cl])"
  proof -
    from a lc have len: "length ls = length cs" by simp
    then have "set (zip (ls @ [?l]) (cs @ [?cl])) = insert (?l, ?cl) (set (zip ls cs))" by simp
    moreover have "\<exists>port. (?l, ?cl) = (buildTCPListener c
                     \<lparr>TCPRouteConfig_Routes =
                        [buildTCPRoute h (buildInboundCluster h port ProtocolTCP (ConnectTimeout mesh))
                           [ip]]\<rparr> ip port,
                   buildInboundCluster h port ProtocolTCP (ConnectTimeout mesh))"
      by blast
    ultimately show ?thesis using a lc len by simp
  qed
  with a lc show "?P ((\<lambda>(listeners, clusters).
             if Protocol mPort = ProtocolHTTP \<or> Protocol mPort = ProtocolHTTP2
                \<or> Protocol mPort = ProtocolGRPC \<or> Protocol mPort = ProtocolTCP
                \<or> Protocol mPort = ProtocolHTTPS then
               (let cluster = buildInboundCluster h (Port mPort) ProtocolTCP (ConnectTimeout mesh);
                    listener = buildTCPListener c
                      \<lparr>TCPRouteConfig_Routes = [buildTCPRoute h cluster [ip]]\<rparr>
                      ip (Port mPort)
                in (listeners @ [listener], clusters @ [cluster]))
             else (listeners, clusters)) a)"
    by (simp add: Let_def)
qed

lemma buildMgmtPortListeners_same_address:
  assumes "p \<in> set (zip (fst (buildMgmtPortListeners c h mesh mports ip))
                        (snd (buildMgmtPortListeners c h mesh mports ip)))"
      and "q \<in> set (zip (fst (buildMgmtPortListeners c h mesh mports ip))
                        (snd (buildMgmtPortListeners c h mesh mports ip)))"
      and "Address (fst p) = Address (fst q)"
  shows "p = q"
proof -
  from assms(1) obtain m where p: "p = (buildTCPListener c
         \<lparr>TCPRouteConfig_Routes =
            [buildTCPRoute h (buildInboundCluster h m ProtocolTCP (ConnectTimeout mesh)) [ip]]\<rparr> ip m,
         buildInboundCluster h m ProtocolTCP (ConnectTimeout mesh))"
    using buildMgmtPortListeners_pairs by blast
  from assms(2) obtain n where q: "q = (buildTCPListener c
         \<lparr>TCPRouteConfig_Routes =
            [buildTCPRoute h (buildInboundCluster h n ProtocolTCP (ConnectTimeout mesh)) [ip]]\<rparr> ip n,
         buildInboundCluster h n ProtocolTCP (ConnectTimeout mesh))"
    using buildMgmtPortListeners_pairs by blast
  from assms(3) p q have "itoa m = itoa n" by (simp add: Address_buildTCPListener)
  then have "m = n" by (rule itoa_inj)
  with p q show ?thesis by simp
qed

lemma appendMgmtListeners_some:
  "i + length ms \<le> length mcs \<Longrightarrow>
   \<exists>ms' cs'. appendMgmtListeners h ms mcs i ls cs = Some (ls @ ms', cs @ cs') \<and> set ms' \<subseteq> set ms"
proof (induction ms arbitrary: i ls cs)
  case Nil
  then show ?case by simp
next
  case (Cons m ms)
  then have i: "i < length mcs" and len: "(i + 1) + length ms \<le> length mcs" by simp_all
  show ?case
  proof (cases "GetByAddress h ls (Address m) = None")
    case False
    from Cons.IH[OF len, of ls cs] obtain ms' cs' where
      "appendMgmtListeners h ms mcs (i + 1) ls cs = Some (ls @ ms', cs @ cs')" "set ms' \<subseteq> set ms"
      by blast
    with False i show ?thesis by (auto simp: Let_def)
  next
    case True
    from Cons.IH[OF len, of "ls @ [m]" "cs @ [mcs ! i]"] obtain ms' cs' where
      "appendMgmtListeners h ms mcs (i + 1) (ls @ [m]) (cs @ [mcs ! i])
         = Some ((ls @ [m]) @ ms', (cs @ [mcs ! i]) @ cs')" "set ms' \<subseteq> set ms"
      by blast
    with True i have "appendMgmtListeners h (m # ms) mcs i ls cs
        = Some (ls @ (m # ms'), cs @ (mcs ! i # cs')) \<and> set (m # ms') \<subseteq> set (m # ms)"
      by (auto simp: Let_def)
    then show ?thesis by blast
  qed
qed

lemma appendMgmtListeners_kept:
  assumes G: "\<And>ls a. (GetByAddress h ls a = None) = (a \<notin> Address ` set ls)"
  shows "i + length ms \<le> length mcs \<Longrightarrow>
     \<forall>p \<in> set (zip ms (drop i mcs)). \<forall>q \<in> set (zip ms (drop i mcs)).
        Address (fst p) = Address (fst q) \<longrightarrow> p = q \<Longrightarrow>
     \<exists>kept. appendMgmtListeners h ms mcs i ls cs = Some (ls @ map fst kept, cs @ map snd kept) \<and>
            set kept = {p \<in> set (zip ms (drop i mcs)). Address (fst p) \<notin> Address ` set ls}"
proof (induction ms arbitrary: i ls cs)
  case Nil
  then show ?case by simp
next
  case (Cons m ms)
  then have i: "i < length mcs" and len: "(i + 1) + length ms \<le> length mcs" by simp_all
  from i have dr: "drop i mcs = mcs ! i # drop (i + 1) mcs"
    by (simp add: Cons_nth_drop_Suc)
  then have z: "zip (m # ms) (drop i mcs) = (m, mcs ! i) # zip ms (drop (i + 1) mcs)" by simp
  have same': "\<forall>p \<in> set (zip ms (drop (i + 1) mcs)). \<forall>q \<in> set (zip ms (drop (i + 1) mcs)).
                  Address (fst p) = Address (fst q) \<longrightarrow> p = q"
    using Cons.prems(2) unfolding z by simp
  show ?case
  proof (cases "Address m \<in> Address ` set ls")
    case True
    then have g: "GetByAddress h ls (Address m) \<noteq> None" using G by simp
    from Cons.IH[OF len same', of ls cs] obtain kept where
      k: "appendMgmtListeners h ms mcs (i + 1) ls cs = Some (ls @ map fst kept, cs @ map snd kept)"
         "set kept = {p \<in> set (zip ms (drop (i + 1) mcs)). Address (fst p) \<notin> Address ` set ls}"
      by blast
    have "appendMgmtListeners h (m # ms) mcs i ls cs = Some (ls @ map fst kept, cs @ map snd kept)"
      using g i k(1) by (simp add: Let_def)
    moreover have "set kept = {p \<in> set (zip (m # ms) (drop i mcs)). Address (fst p) \<notin> Address ` set ls}"
      unfolding z using True k(2) by auto
    ultimately show ?thesis by blast
  next
    case False
    then have g: "GetByAddress h ls (Address m) = None" using G by simp
    from Cons.IH[OF len same', of "ls @ [m]" "cs @ [mcs ! i]"] obtain kept where
      k: "appendMgmtListeners h ms mcs (i + 1) (ls @ [m]) (cs @ [mcs ! i])
            = Some ((ls @ [m]) @ map fst kept, (cs @ [mcs ! i]) @ map snd kept)"
         "set kept = {p \<in> set (zip ms (drop (i + 1) mcs)).
                        Address (fst p) \<notin> Address ` set (ls @ [m])}"
      by blast
    let ?kept = "(m, mcs ! i) # kept"
    have "appendMgmtListeners h (m # ms) mcs i ls cs = Some (ls @ map fst ?kept, cs @ map snd ?kept)"
      using g i k(1) by (simp add: Let_def)
    moreover have "set ?kept = {p \<in> set (zip (m # ms) (drop i mcs)). Address (fst p) \<notin> Address ` set ls}"
    proof -
      have "\<And>p. p \<in> set (zip ms (drop (i + 1) mcs)) \<Longrightarrow> Address (fst p) = Address m \<Longrightarrow> p = (m, mcs ! i)"
        using Cons.prems(2) unfolding z by simp
      then show ?thesis unfolding z using False k(2) by auto
    qed
    ultimately show ?thesis by blast
  qed
qed


lemma buildSidecar_listen:
  assumes port: "ProxyListenPort (Mesh env) > 0"
      and mg: "appendMgmtListeners h
                 (fst (buildMgmtPortListeners c h (Mesh env) (ManagementPorts env (IPAddress sidecar))
                    (IPAddress sidecar)))
                 (snd (buildMgmtPortListeners c h (Mesh env) (ManagementPorts env (IPAddress sidecar))
                    (IPAddress sidecar))) 0
                 (fst (buildInboundListeners c h (Mesh env) sidecar
                         (HostInstances env [IPAddress sidecar \<mapsto> True]) (IstioConfigStore env))
                  @ fst (buildOutboundListeners c h (Mesh env) sidecar
                         (HostInstances env [IPAddress sidecar \<mapsto> True]) (Services env)
                         (IstioConfigStore env)))
                 (snd (buildInboundListeners c h (Mesh env) sidecar
                         (HostInstances env [IPAddress sidecar \<mapsto> True]) (IstioConfigStore env))
                  @ snd (buildOutboundListeners c h (Mesh env) sidecar
                         (HostInstances env [IPAddress sidecar \<mapsto> True]) (Services env)
                         (IstioConfigStore env)))
               = Some (ls, cs)"
  shows "buildSidecar c h env sidecar =
     Some (normalizeListeners h
             (map (\<lambda>l. l\<lparr>BindToPort := False\<rparr>) ls
              @ [\<lparr>Name = VirtualListenerName c,
                  Address = ''tcp://'' @ WildcardAddress c @ '':'' @ itoa (ProxyListenPort (Mesh env)),
                  BindToPort = True, UseOriginalDst = True, Filters = [], SSLContext = None\<rparr>]
              @ (if ProxyHttpPort (Mesh env) > 0
                 then [buildHTTPListener c h (Mesh env) sidecar
                         (HostInstances env [IPAddress sidecar \<mapsto> True]) None
                         (LocalhostAddress c) (ProxyHttpPort (Mesh env)) (RDSAll c) False]
                 else [])),
           normalizeClusters h
             (cs @ (if ProxyHttpPort (Mesh env) > 0
                    then routeConfigsClusters h
                           (buildOutboundHTTPRoutes c h (Mesh env) sidecar
                              (HostInstances env [IPAddress sidecar \<mapsto> True]) (Services env)
                              (IstioConfigStore env))
                    else [])))"
  using port mg
  by (simp add: buildSidecar_def Let_def case_prod_beta)



text \<open>
  Claim C8. \<^verbatim>\<open>GetByAddress\<close> is declared in another file; the theorem
  takes it to return \<^verbatim>\<open>nil\<close> exactly when no listener of the list has the
  address. Then, when \<^verbatim>\<open>ProxyListenPort\<close> is positive, \<^verbatim>\<open>buildSidecar\<close>
  does not panic, and the management listeners that it appends to the inbound
  and outbound listeners, each with the cluster of the same index, are those
  whose address is the address of no inbound or outbound listener: every
  colliding one is left out with its cluster, every other one is in the list
  with its cluster. The lists go through \<^verbatim>\<open>normalize\<close>, which is declared
  in another file, after the virtual listener and the listener and clusters of
  the HTTP proxy port have been appended.
\<close>

theorem buildSidecar_management_listeners:
  assumes G: "\<And>ls a. (GetByAddress h ls a = None) = (a \<notin> Address ` set ls)"
      and port: "ProxyListenPort (Mesh env) > 0"
  shows "let instances = HostInstances env [IPAddress sidecar \<mapsto> True];
             inb = buildInboundListeners c h (Mesh env) sidecar instances (IstioConfigStore env);
             outb = buildOutboundListeners c h (Mesh env) sidecar instances (Services env)
                      (IstioConfigStore env);
             mgmt = buildMgmtPortListeners c h (Mesh env) (ManagementPorts env (IPAddress sidecar))
                      (IPAddress sidecar);
             service = fst inb @ fst outb;
             virtual = \<lparr>Name = VirtualListenerName c,
                        Address = ''tcp://'' @ WildcardAddress c @ '':''
                                    @ itoa (ProxyListenPort (Mesh env)),
                        BindToPort = True, UseOriginalDst = True, Filters = [],
                        SSLContext = None\<rparr>;
             proxyListeners =
               (if ProxyHttpPort (Mesh env) > 0
                then [buildHTTPListener c h (Mesh env) sidecar instances None
                        (LocalhostAddress c) (ProxyHttpPort (Mesh env)) (RDSAll c) False]
                else []);
             proxyClusters =
               (if ProxyHttpPort (Mesh env) > 0
                then routeConfigsClusters h
                       (buildOutboundHTTPRoutes c h (Mesh env) sidecar instances (Services env)
                          (IstioConfigStore env))
                else [])
         in \<exists>kept.
              set kept = {p \<in> set (zip (fst mgmt) (snd mgmt)).
                            Address (fst p) \<notin> Address ` set service} \<and>
              buildSidecar c h env sidecar =
                Some (normalizeListeners h
                        (map (\<lambda>l. l\<lparr>BindToPort := False\<rparr>) (service @ map fst kept)
                         @ [virtual] @ proxyListeners),
                      normalizeClusters h
                        (snd inb @ snd outb @ map snd kept @ proxyClusters))"
proof -
  let ?instances = "HostInstances env [IPAddress sidecar \<mapsto> True]"
  let ?inb = "buildInboundListeners c h (Mesh env) sidecar ?instances (IstioConfigStore env)"
  let ?outb = "buildOutboundListeners c h (Mesh env) sidecar ?instances (Services env)
                 (IstioConfigStore env)"
  let ?mgmt = "buildMgmtPortListeners c h (Mesh env) (ManagementPorts env (IPAddress sidecar))
                 (IPAddress sidecar)"
  have len: "0 + length (fst ?mgmt) \<le> length (snd ?mgmt)"
    using conjunct1[OF buildMgmtPortListeners_pairs, of c h "Mesh env"] by simp
  have same: "\<forall>p \<in> set (zip (fst ?mgmt) (drop 0 (snd ?mgmt))).
                \<forall>q \<in> set (zip (fst ?mgmt) (drop 0 (snd ?mgmt))).
                  Address (fst p) = Address (fst q) \<longrightarrow> p = q"
  proof (intro ballI impI)
    fix p q
    assume "p \<in> set (zip (fst ?mgmt) (drop 0 (snd ?mgmt)))"
       and "q \<in> set (zip (fst ?mgmt) (drop 0 (snd ?mgmt)))"
       and "Address (fst p) = Address (fst q)"
    then show "p = q" unfolding drop_0 by (rule buildMgmtPortListeners_same_address)
  qed
  from appendMgmtListeners_kept[of h 0 "fst ?mgmt" "snd ?mgmt" "fst ?inb @ fst ?outb"
         "snd ?inb @ snd ?outb", OF G len same]
  obtain kept where
    k: "appendMgmtListeners h (fst ?mgmt) (snd ?mgmt) 0 (fst ?inb @ fst ?outb) (snd ?inb @ snd ?outb)
          = Some ((fst ?inb @ fst ?outb) @ map fst kept, (snd ?inb @ snd ?outb) @ map snd kept)"
       "set kept = {p \<in> set (zip (fst ?mgmt) (drop 0 (snd ?mgmt))).
                       Address (fst p) \<notin> Address ` set (fst ?inb @ fst ?outb)}"
    by (elim exE conjE)
  note sidecar = buildSidecar_listen[OF port k(1)]
  have "set kept = {p \<in> set (zip (fst ?mgmt) (snd ?mgmt)).
                       Address (fst p) \<notin> Address ` set (fst ?inb @ fst ?outb)} \<and>
        buildSidecar c h env sidecar =
          Some (normalizeListeners h
                  (map (\<lambda>l. l\<lparr>BindToPort := False\<rparr>) ((fst ?inb @ fst ?outb) @ map fst kept)
                   @ [\<lparr>Name = VirtualListenerName c,
                       Address = ''tcp://'' @ WildcardAddress c @ '':''
                                   @ itoa (ProxyListenPort (Mesh env)),
                       BindToPort = True, UseOriginalDst = True, Filters = [],
                       SSLContext = None\<rparr>]
                   @ (if ProxyHttpPort (Mesh env) > 0
                      then [buildHTTPListener c h (Mesh env) sidecar ?instances None
                              (LocalhostAddress c) (ProxyHttpPort (Mesh env)) (RDSAll c) False]
                      else [])),
                normalizeClusters h
                  (snd ?inb @ snd ?outb @ map snd kept
                   @ (if ProxyHttpPort (Mesh env) > 0
                      then routeConfigsClusters h
                             (buildOutboundHTTPRoutes c h (Mesh env) sidecar ?instances
                                (Services env) (IstioConfigStore env))
                      else [])))"
    using sidecar k(2) unfolding drop_0 append_assoc by (intro conjI)
  then show ?thesis unfolding Let_def by (rule exI[of _ kept])
qed



theorem buildSidecar_management_listeners_witness:
  "ProxyListenPort (Mesh (exampleEnv [exampleInstance 8080 ProtocolHTTP] []
      [examplePort 8080 ProtocolHTTP, examplePort 9090 ProtocolHTTP]
      (exampleMesh ProxyMeshConfig_NONE 15001 0))) > 0 \<and>
   (case buildSidecar exampleNames exampleHelpers
      (exampleEnv [exampleInstance 8080 ProtocolHTTP] []
         [examplePort 8080 ProtocolHTTP, examplePort 9090 ProtocolHTTP]
         (exampleMesh ProxyMeshConfig_NONE 15001 0)) exampleNode of
      None \<Rightarrow> None
    | Some (ls, cs) \<Rightarrow> Some (map Name ls, map ServiceName cs))
   = Some ([''virtual'', ''http_10.1.1.1_8080'', ''tcp_10.1.1.1_9090''], [''in.8080'', ''in.9090''])"
proof -
  have G: "\<And>ls a. (GetByAddress exampleHelpers ls a = None) = (a \<notin> Address ` set ls)"
    by (auto simp: exampleHelpers_def find_None_iff)
  have port: "ProxyListenPort (Mesh (exampleEnv [exampleInstance 8080 ProtocolHTTP] []
      [examplePort 8080 ProtocolHTTP, examplePort 9090 ProtocolHTTP]
      (exampleMesh ProxyMeshConfig_NONE 15001 0))) > 0"
    by (simp add: exampleEnv_def exampleMesh_def)
  note buildSidecar_management_listeners [where h = exampleHelpers and c = exampleNames
      and sidecar = exampleNode, OF G port]
  then show ?thesis
    using port by (simp add: example_defs sidecar_defs)
qed

text \<open>
  Claim C9 as stated fails when \<^verbatim>\<open>ProxyHttpPort\<close> is positive too: the
  listener of the HTTP proxy port is appended after the loop that clears
  \<^verbatim>\<open>BindToPort\<close>, and \<^verbatim>\<open>buildHTTPListener\<close> sets it. With no instance,
  no service and no management port, and both ports positive, two listeners
  are returned and both bind to their port.
\<close>

theorem buildSidecar_bind_to_port_counterexample:
  "(case buildSidecar exampleNames exampleHelpers
      (exampleEnv [] [] [] (exampleMesh ProxyMeshConfig_NONE 15001 15002)) exampleNode of
      None \<Rightarrow> []
    | Some (ls, cs) \<Rightarrow> map (\<lambda>l. (Name l, Address l, BindToPort l)) ls)
   = [(''virtual'', ''tcp://0.0.0.0:15001'', True),
      (''http_127.0.0.1_15002'', ''tcp://127.0.0.1:15002'', True)]"
  by (simp add: example_defs sidecar_defs)

text \<open>
  Claim C9, amended. When \<^verbatim>\<open>ProxyListenPort\<close> is positive,
  \<^verbatim>\<open>buildSidecar\<close> does not panic and the listeners that it hands to
  \<^verbatim>\<open>normalize\<close> are: listeners that all have \<^verbatim>\<open>BindToPort\<close> false; then
  one virtual listener, on the wildcard address and \<^verbatim>\<open>ProxyListenPort\<close>,
  with \<^verbatim>\<open>BindToPort\<close> and \<^verbatim>\<open>UseOriginalDst\<close> true and no filter; then,
  exactly when \<^verbatim>\<open>ProxyHttpPort\<close> is positive, the listener of the HTTP
  proxy port, which has \<^verbatim>\<open>BindToPort\<close> true as well.
\<close>

theorem buildSidecar_bind_to_port:
  assumes port: "ProxyListenPort (Mesh env) > 0"
  shows "let virtual = \<lparr>Name = VirtualListenerName c,
                        Address = ''tcp://'' @ WildcardAddress c @ '':''
                                    @ itoa (ProxyListenPort (Mesh env)),
                        BindToPort = True, UseOriginalDst = True, Filters = [],
                        SSLContext = None\<rparr>;
             proxyListeners =
               (if ProxyHttpPort (Mesh env) > 0
                then [buildHTTPListener c h (Mesh env) sidecar
                        (HostInstances env [IPAddress sidecar \<mapsto> True]) None
                        (LocalhostAddress c) (ProxyHttpPort (Mesh env)) (RDSAll c) False]
                else [])
         in \<exists>built clusters.
              buildSidecar c h env sidecar =
                Some (normalizeListeners h (built @ [virtual] @ proxyListeners), clusters) \<and>
              (\<forall>l \<in> set built. \<not> BindToPort l) \<and>
              (\<forall>l \<in> set proxyListeners. BindToPort l)"
proof -
  let ?instances = "HostInstances env [IPAddress sidecar \<mapsto> True]"
  let ?inb = "buildInboundListeners c h (Mesh env) sidecar ?instances (IstioConfigStore env)"
  let ?outb = "buildOutboundListeners c h (Mesh env) sidecar ?instances (Services env)
                 (IstioConfigStore env)"
  let ?mgmt = "buildMgmtPortListeners c h (Mesh env) (ManagementPorts env (IPAddress sidecar))
                 (IPAddress sidecar)"
  have len: "0 + length (fst ?mgmt) \<le> length (snd ?mgmt)"
    using conjunct1[OF buildMgmtPortListeners_pairs, of c h "Mesh env"] by simp
  from appendMgmtListeners_some[OF len, of h "fst ?inb @ fst ?outb" "snd ?inb @ snd ?outb"]
  obtain ms' cs' where
    k: "appendMgmtListeners h (fst ?mgmt) (snd ?mgmt) 0 (fst ?inb @ fst ?outb) (snd ?inb @ snd ?outb)
          = Some ((fst ?inb @ fst ?outb) @ ms', (snd ?inb @ snd ?outb) @ cs')"
    by blast
  let ?built = "map (\<lambda>l. l\<lparr>BindToPort := False\<rparr>) ((fst ?inb @ fst ?outb) @ ms')"
  let ?proxy = "(if ProxyHttpPort (Mesh env) > 0
                 then [buildHTTPListener c h (Mesh env) sidecar ?instances None
                         (LocalhostAddress c) (ProxyHttpPort (Mesh env)) (RDSAll c) False]
                 else [])"
  let ?clusters = "normalizeClusters h
             (((snd ?inb @ snd ?outb) @ cs') @ (if ProxyHttpPort (Mesh env) > 0
                    then routeConfigsClusters h
                           (buildOutboundHTTPRoutes c h (Mesh env) sidecar ?instances (Services env)
                              (IstioConfigStore env))
                    else []))"
  have unbound: "\<forall>l \<in> set ?built. \<not> BindToPort l"
    by auto
  have bound: "\<forall>l \<in> set ?proxy. BindToPort l"
    by (simp add: buildHTTPListener_def Let_def)
  have "buildSidecar c h env sidecar =
          Some (normalizeListeners h
                  (?built @ [\<lparr>Name = VirtualListenerName c,
                       Address = ''tcp://'' @ WildcardAddress c @ '':''
                                   @ itoa (ProxyListenPort (Mesh env)),
                       BindToPort = True, UseOriginalDst = True, Filters = [],
                       SSLContext = None\<rparr>] @ ?proxy), ?clusters)"
    using buildSidecar_listen[OF port k] by simp
  with unbound bound show ?thesis
    unfolding Let_def by (intro exI[of _ ?built] exI[of _ ?clusters] conjI)
qed


theorem buildSidecar_bind_to_port_witness:
  "ProxyListenPort (Mesh (exampleEnv [exampleInstance 8080 ProtocolHTTP] [exampleService]
      [examplePort 9090 ProtocolHTTP] (exampleMesh ProxyMeshConfig_NONE 15001 0))) > 0 \<and>
   (case buildSidecar exampleNames exampleHelpers
      (exampleEnv [exampleInstance 8080 ProtocolHTTP] [exampleService]
         [examplePort 9090 ProtocolHTTP] (exampleMesh ProxyMeshConfig_NONE 15001 0))
      exampleNode of
      None \<Rightarrow> []
    | Some (ls, cs) \<Rightarrow> map (\<lambda>l. (Name l, BindToPort l)) ls)
   = [(''virtual'', True), (''http_0.0.0.0_80'', False), (''http_10.1.1.1_8080'', False),
      (''tcp_10.1.1.1_9090'', False)]"
proof -
  have port: "ProxyListenPort (Mesh (exampleEnv [exampleInstance 8080 ProtocolHTTP] [exampleService]
      [examplePort 9090 ProtocolHTTP] (exampleMesh ProxyMeshConfig_NONE 15001 0))) > 0"
    by (simp add: exampleEnv_def exampleMesh_def)
  note buildSidecar_bind_to_port [where h = exampleHelpers and c = exampleNames
      and sidecar = exampleNode, OF port]
  then show ?thesis
    using port
    by (simp add: example_defs sidecar_defs buildDestinationHTTPRoutes_def outboundHTTPRoutesStep_def
          appendVirtualHost_def)
qed

section \<open>Order of map iteration\<close>

text \<open>Go ranges over a map in an unspecified order. The embedding takes that order as the
  parameters \<^term>\<open>rangeStrings\<close> and \<^term>\<open>rangeConfigs\<close>; the lemmas of this section
  say where the order is visible. \<^term>\<open>buildHTTPListener\<close> sorts the keys it ranges over, so
  its listener is the same for every order.\<close>

lemma sort_range_independent:
  fixes ks :: "string list"
  assumes "mset ks' = mset ks"
  shows "sort ks' = sort ks"
  using assms by (intro properties_for_sort) simp_all

lemma buildHTTPListener_range_independent:
  assumes "\<And>ks. mset (rangeStrings h ks) = mset ks"
  shows "buildHTTPListener c h mesh role instances routeConfig ip port rds remote
         = buildHTTPListener c (h\<lparr>rangeStrings := (\<lambda>ks. ks)\<rparr>) mesh role instances routeConfig
             ip port rds remote"
  using sort_range_independent[OF assms]
  by (simp add: buildHTTPListener_def Let_def)

text \<open>\<^term>\<open>buildOutboundListeners\<close> appends one listener per key of the route
  configurations, in the order of the range: for a service with the ports 80 and 8080 the two
  listeners come out in either order.\<close>

lemma buildOutboundListeners_in_range_order:
  "map Name (fst (buildOutboundListeners exampleNames exampleHelpers
      (exampleMesh ProxyMeshConfig_NONE 15001 0) exampleNode [] [twoPortService] exampleStore))
     = [''http_0.0.0.0_80'', ''http_0.0.0.0_8080''] \<and>
   map Name (fst (buildOutboundListeners exampleNames (exampleHelpers\<lparr>rangeConfigs := rev\<rparr>)
      (exampleMesh ProxyMeshConfig_NONE 15001 0) exampleNode [] [twoPortService] exampleStore))
     = [''http_0.0.0.0_8080'', ''http_0.0.0.0_80'']"
  by (simp add: example_defs sidecar_defs twoPortService_def buildDestinationHTTPRoutes_def
        outboundHTTPRoutesStep_def appendVirtualHost_def)

text \<open>Apart from the sorted keys, only \<^term>\<open>buildOutboundListeners\<close> ranges over a map: every
  other function gives the same result for every order.\<close>

lemma buildHTTPListener_ranges:
  assumes "\<And>ks. mset (rangeStrings h ks) = mset ks"
  shows "buildHTTPListener c (h\<lparr>rangeStrings := (\<lambda>ks. ks), rangeConfigs := (\<lambda>m. m)\<rparr>)
           mesh role instances routeConfig ip port rds remote
         = buildHTTPListener c h mesh role instances routeConfig ip port rds remote"
  using sort_range_independent[OF assms]
  by (simp add: buildHTTPListener_def Let_def)

lemma collectRouteRules_ranges:
  "collectRouteRules (h\<lparr>rangeStrings := f, rangeConfigs := g\<rparr>) service servicePort rules acc
     = collectRouteRules h service servicePort rules acc"
  by (auto simp: collectRouteRules_closed Let_def)

lemma outboundHTTPRoutesStep_ranges:
  "outboundHTTPRoutesStep c (h\<lparr>rangeStrings := f, rangeConfigs := g\<rparr>) mesh suffix rules service
     = outboundHTTPRoutesStep c h mesh suffix rules service"
  by (intro ext)
     (simp add: outboundHTTPRoutesStep_def buildDestinationHTTPRoutes_def
        collectRouteRules_ranges Let_def cong: if_cong)

lemma buildOutboundHTTPRoutes_ranges:
  "buildOutboundHTTPRoutes c (h\<lparr>rangeStrings := f, rangeConfigs := g\<rparr>) mesh sidecar instances
       services config
     = buildOutboundHTTPRoutes c h mesh sidecar instances services config"
  by (simp add: buildOutboundHTTPRoutes_def outboundHTTPRoutesStep_ranges Let_def)

lemma buildOutboundTCPListeners_ranges:
  "buildOutboundTCPListeners c (h\<lparr>rangeStrings := f, rangeConfigs := g\<rparr>) mesh services
     = buildOutboundTCPListeners c h mesh services"
  by (simp add: buildOutboundTCPListeners_def Let_def cong: if_cong)

lemma buildMgmtPortListeners_ranges:
  "buildMgmtPortListeners c (h\<lparr>rangeStrings := f, rangeConfigs := g\<rparr>) mesh mports ip
     = buildMgmtPortListeners c h mesh mports ip"
  by (simp add: buildMgmtPortListeners_def Let_def cong: if_cong)

lemma inboundListener_ranges:
  assumes "\<And>ks. mset (rangeStrings h ks) = mset ks"
  shows "inboundListener c (h\<lparr>rangeStrings := (\<lambda>ks. ks), rangeConfigs := (\<lambda>m. m)\<rparr>)
           mesh sidecar instances config inst cluster
         = inboundListener c h mesh sidecar instances config inst cluster"
  unfolding inboundListener_def buildHTTPListener_ranges[OF assms]
  by (simp add: Let_def cong: if_cong)

lemma inboundListenersLoop_ranges:
  assumes "\<And>ks. mset (rangeStrings h ks) = mset ks"
  shows "inboundListenersLoop c (h\<lparr>rangeStrings := (\<lambda>ks. ks), rangeConfigs := (\<lambda>m. m)\<rparr>)
           mesh sidecar instances config
         = inboundListenersLoop c h mesh sidecar instances config"
  unfolding inboundListenersLoop_def inboundListener_ranges[OF assms]
  by (simp add: Let_def)

lemma applyInboundAuth_ranges:
  "applyInboundAuth (h\<lparr>rangeStrings := f, rangeConfigs := g\<rparr>) listener mesh
     = applyInboundAuth h listener mesh"
  by (simp add: applyInboundAuth_def split: AuthPolicy.splits)

lemma buildInboundListeners_ranges:
  assumes "\<And>ks. mset (rangeStrings h ks) = mset ks"
  shows "buildInboundListeners c (h\<lparr>rangeStrings := (\<lambda>ks. ks), rangeConfigs := (\<lambda>m. m)\<rparr>)
           mesh sidecar instances config
         = buildInboundListeners c h mesh sidecar instances config"
  unfolding buildInboundListeners_def inboundListenersLoop_ranges[OF assms]
    applyInboundAuth_ranges
  by (rule refl)

text \<open>The outbound listeners and clusters are the same up to their order.\<close>

lemma appendMgmtListeners_ranges:
  "appendMgmtListeners (h\<lparr>rangeStrings := f, rangeConfigs := g\<rparr>) ms mcs i ls cs
     = appendMgmtListeners h ms mcs i ls cs"
  by (induction ms arbitrary: i ls cs) (simp_all add: Let_def)

lemma fold_append_pairs:
  "fold (\<lambda>(p, r) (ls, cs). (ls @ [F p r], cs @ G p r)) xs (ls0, cs0)
     = (ls0 @ map (\<lambda>(p, r). F p r) xs, cs0 @ concat (map (\<lambda>(p, r). G p r) xs))"
  by (induction xs arbitrary: ls0 cs0) auto

lemma mset_concat_map_perm:
  assumes "mset xs = mset ys"
  shows "mset (concat (map g xs)) = mset (concat (map g ys))"
proof -
  have "mset (concat (map g zs)) = sum_mset (image_mset (\<lambda>z. mset (g z)) (mset zs))" for zs
    by (induction zs) simp_all
  with assms show ?thesis by simp
qed

lemma buildOutboundListeners_closed:
  "buildOutboundListeners c h mesh sidecar instances services config =
     (fst (buildOutboundTCPListeners c h mesh services)
        @ map (\<lambda>(p, r). buildHTTPListener c h mesh sidecar instances (Some r) (WildcardAddress c)
                          p (itoa p) False)
              (rangeConfigs h (buildOutboundHTTPRoutes c h mesh sidecar instances services config)),
      snd (buildOutboundTCPListeners c h mesh services)
        @ concat (map (\<lambda>(p, r). routeConfigClusters h r)
              (rangeConfigs h (buildOutboundHTTPRoutes c h mesh sidecar instances services config))))"
  by (cases "buildOutboundTCPListeners c h mesh services")
     (simp add: buildOutboundListeners_def fold_append_pairs Let_def)


lemma buildOutboundListeners_ranges:
  assumes rs: "\<And>ks. mset (rangeStrings h ks) = mset ks"
      and rc: "\<And>m. mset (rangeConfigs h m) = mset m"
  shows "mset (fst (buildOutboundListeners c
                      (h\<lparr>rangeStrings := (\<lambda>ks. ks), rangeConfigs := (\<lambda>m. m)\<rparr>)
                      mesh sidecar instances services config))
           = mset (fst (buildOutboundListeners c h mesh sidecar instances services config))"
    and "mset (snd (buildOutboundListeners c
                      (h\<lparr>rangeStrings := (\<lambda>ks. ks), rangeConfigs := (\<lambda>m. m)\<rparr>)
                      mesh sidecar instances services config))
           = mset (snd (buildOutboundListeners c h mesh sidecar instances services config))"
proof -
  let ?m = "buildOutboundHTTPRoutes c h mesh sidecar instances services config"
  have r: "mset (rangeConfigs h ?m) = mset ?m" by (rule rc)
  have 1: "mset (map F (rangeConfigs h ?m)) = mset (map F ?m)" for F :: "_ \<Rightarrow> 'a Listener"
    using r by (simp only: mset_map)
  have 2: "mset (concat (map G (rangeConfigs h ?m))) = mset (concat (map G ?m))"
    for G :: "_ \<Rightarrow> 'a Cluster list"
    by (rule mset_concat_map_perm[OF r])
  show "mset (fst (buildOutboundListeners c
                      (h\<lparr>rangeStrings := (\<lambda>ks. ks), rangeConfigs := (\<lambda>m. m)\<rparr>)
                      mesh sidecar instances services config))
           = mset (fst (buildOutboundListeners c h mesh sidecar instances services config))"
    unfolding buildOutboundListeners_closed buildOutboundHTTPRoutes_ranges
      buildOutboundTCPListeners_ranges buildHTTPListener_ranges[OF rs]
    by (simp add: rc)
  show "mset (snd (buildOutboundListeners c
                      (h\<lparr>rangeStrings := (\<lambda>ks. ks), rangeConfigs := (\<lambda>m. m)\<rparr>)
                      mesh sidecar instances services config))
           = mset (snd (buildOutboundListeners c h mesh sidecar instances services config))"
    unfolding buildOutboundListeners_closed buildOutboundHTTPRoutes_ranges
      buildOutboundTCPListeners_ranges
    by (simp add: 2)
qed

text \<open>The management listeners that are appended depend on the addresses already taken, not on
  the order of the listeners that take them.\<close>

lemma appendMgmtListeners_extends:
  "appendMgmtListeners h ms mcs i ls cs = Some (l, cl) \<Longrightarrow> \<exists>K KC. l = ls @ K \<and> cl = cs @ KC"
proof (induction ms arbitrary: i ls cs)
  case Nil
  then show ?case by simp
next
  case (Cons m ms)
  show ?case
  proof (cases "GetByAddress h ls (Address m) = None")
    case True
    with Cons.prems have "appendMgmtListeners h ms mcs (i + 1) (ls @ [m]) (cs @ [mcs ! i]) = Some (l, cl)"
      by (simp add: Let_def split: if_splits)
    from Cons.IH[OF this] show ?thesis by auto
  next
    case False
    with Cons.prems have "appendMgmtListeners h ms mcs (i + 1) ls cs = Some (l, cl)"
      by (simp add: Let_def split: if_splits)
    from Cons.IH[OF this] show ?thesis .
  qed
qed

lemma appendMgmtListeners_same_addresses:
  assumes G: "\<And>ls a. (GetByAddress h ls a = None) = (a \<notin> Address ` set ls)"
  shows "Address ` set ls = Address ` set ls' \<Longrightarrow>
         appendMgmtListeners h ms mcs i ls cs = Some (ls @ K, cs @ KC) \<Longrightarrow>
         appendMgmtListeners h ms mcs i ls' cs' = Some (ls' @ K, cs' @ KC)"
proof (induction ms arbitrary: i ls cs ls' cs' K KC)
  case Nil
  then show ?case by simp
next
  case (Cons m ms)
  from Cons.prems(2) have i: "i < length mcs" by (simp split: if_splits)
  show ?case
  proof (cases "Address m \<in> Address ` set ls")
    case True
    then have g: "GetByAddress h ls (Address m) \<noteq> None" "GetByAddress h ls' (Address m) \<noteq> None"
      using G Cons.prems(1) by simp_all
    from Cons.prems(2) g i
    have "appendMgmtListeners h ms mcs (i + 1) ls cs = Some (ls @ K, cs @ KC)"
      by (simp add: Let_def)
    from Cons.IH[OF Cons.prems(1) this] g i show ?thesis by (simp add: Let_def)
  next
    case False
    then have g: "GetByAddress h ls (Address m) = None" "GetByAddress h ls' (Address m) = None"
      using G Cons.prems(1) by simp_all
    from Cons.prems(2) g i
    have rec: "appendMgmtListeners h ms mcs (i + 1) (ls @ [m]) (cs @ [mcs ! i])
                 = Some (ls @ K, cs @ KC)"
      by (simp add: Let_def)
    from appendMgmtListeners_extends[OF rec]
    obtain K' KC' where k: "ls @ K = (ls @ [m]) @ K'" "cs @ KC = (cs @ [mcs ! i]) @ KC'"
      by blast
    have a: "Address ` set (ls @ [m]) = Address ` set (ls' @ [m])"
      using Cons.prems(1) by simp
    from rec k have "appendMgmtListeners h ms mcs (i + 1) (ls @ [m]) (cs @ [mcs ! i])
                 = Some ((ls @ [m]) @ K', (cs @ [mcs ! i]) @ KC')" by simp
    from Cons.IH[OF a this, of "cs' @ [mcs ! i]"] k g i show ?thesis by (simp add: Let_def)
  qed
qed

text \<open>Hence the sidecar configuration is the same for every order of map iteration, provided
  that the normalisation of listeners and clusters, which is declared in another file, gives the
  same list for every permutation of its argument.\<close>

lemma buildSidecar_range_independent:
  assumes rs: "\<And>ks. mset (rangeStrings h ks) = mset ks"
      and rc: "\<And>m. mset (rangeConfigs h m) = mset m"
      and nl: "\<And>xs ys. mset xs = mset ys \<Longrightarrow> normalizeListeners h xs = normalizeListeners h ys"
      and nc: "\<And>xs ys. mset xs = mset ys \<Longrightarrow> normalizeClusters h xs = normalizeClusters h ys"
      and G: "\<And>ls a. (GetByAddress h ls a = None) = (a \<notin> Address ` set ls)"
  shows "buildSidecar c (h\<lparr>rangeStrings := (\<lambda>ks. ks), rangeConfigs := (\<lambda>m. m)\<rparr>) env sidecar
         = buildSidecar c h env sidecar"
proof (cases "ProxyListenPort (Mesh env) > 0")
  case False
  then show ?thesis
    by (simp add: buildSidecar_def buildHTTPListener_ranges[OF rs] buildOutboundHTTPRoutes_ranges
          Let_def)
next
  case port: True
  let ?h = "h\<lparr>rangeStrings := (\<lambda>ks. ks), rangeConfigs := (\<lambda>m. m)\<rparr>"
  let ?instances = "HostInstances env [IPAddress sidecar \<mapsto> True]"
  let ?inb = "buildInboundListeners c h (Mesh env) sidecar ?instances (IstioConfigStore env)"
  let ?outb = "buildOutboundListeners c h (Mesh env) sidecar ?instances (Services env)
                 (IstioConfigStore env)"
  let ?outb' = "buildOutboundListeners c ?h (Mesh env) sidecar ?instances (Services env)
                 (IstioConfigStore env)"
  let ?mgmt = "buildMgmtPortListeners c h (Mesh env) (ManagementPorts env (IPAddress sidecar))
                 (IPAddress sidecar)"
  have len: "0 + length (fst ?mgmt) \<le> length (snd ?mgmt)"
    using conjunct1[OF buildMgmtPortListeners_pairs, of c h "Mesh env"] by simp
  from appendMgmtListeners_some[OF len, of h "fst ?inb @ fst ?outb" "snd ?inb @ snd ?outb"]
  obtain K KC where
    k: "appendMgmtListeners h (fst ?mgmt) (snd ?mgmt) 0 (fst ?inb @ fst ?outb) (snd ?inb @ snd ?outb)
          = Some ((fst ?inb @ fst ?outb) @ K, (snd ?inb @ snd ?outb) @ KC)"
    by blast
  have ml: "mset (fst ?outb') = mset (fst ?outb)" and mc: "mset (snd ?outb') = mset (snd ?outb)"
    using buildOutboundListeners_ranges[OF rs rc] by blast+
  from ml have "set (fst ?outb') = set (fst ?outb)" by (rule mset_eq_setD)
  then have addr: "Address ` set (fst ?inb @ fst ?outb) = Address ` set (fst ?inb @ fst ?outb')"
    by simp
  have k': "appendMgmtListeners h (fst ?mgmt) (snd ?mgmt) 0 (fst ?inb @ fst ?outb')
              (snd ?inb @ snd ?outb')
          = Some ((fst ?inb @ fst ?outb') @ K, (snd ?inb @ snd ?outb') @ KC)"
    by (rule appendMgmtListeners_same_addresses[OF G addr k])
  have port': "ProxyListenPort (Mesh env) > 0" by (rule port)
  have k'': "appendMgmtListeners ?h
      (fst (buildMgmtPortListeners c ?h (Mesh env) (ManagementPorts env (IPAddress sidecar))
              (IPAddress sidecar)))
      (snd (buildMgmtPortListeners c ?h (Mesh env) (ManagementPorts env (IPAddress sidecar))
              (IPAddress sidecar))) 0
      (fst (buildInboundListeners c ?h (Mesh env) sidecar ?instances (IstioConfigStore env))
         @ fst ?outb')
      (snd (buildInboundListeners c ?h (Mesh env) sidecar ?instances (IstioConfigStore env))
         @ snd ?outb')
      = Some ((fst ?inb @ fst ?outb') @ K, (snd ?inb @ snd ?outb') @ KC)"
    unfolding appendMgmtListeners_ranges buildMgmtPortListeners_ranges
      buildInboundListeners_ranges[OF rs]
    by (rule k')
  have L: "mset (map (\<lambda>l. l\<lparr>BindToPort := False\<rparr>) ((fst ?inb @ fst ?outb') @ K) @ tl)
         = mset (map (\<lambda>l. l\<lparr>BindToPort := False\<rparr>) ((fst ?inb @ fst ?outb) @ K) @ tl)" for tl
    using ml by simp
  have C: "mset (((snd ?inb @ snd ?outb') @ KC) @ tc) = mset (((snd ?inb @ snd ?outb) @ KC) @ tc)"
    for tc
    using mc by simp
  show ?thesis
    unfolding buildSidecar_listen[OF port k] buildSidecar_listen[OF port' k'']
    by (simp add: buildHTTPListener_ranges[OF rs] buildOutboundHTTPRoutes_ranges
          nl[OF L] nc[OF C] del: append_assoc map_append mset_append mset_map)
qed

section \<open>Properties of the reconciler\<close>

subsection \<open>Traces\<close>

lemma allocated_append [simp]: "allocated (tr @ evs) = allocated tr @ allocated evs"
  by (simp add: allocated_def)

lemma inserted_append [simp]: "inserted (tr @ evs) = inserted tr @ inserted evs"
  by (simp add: inserted_def)

lemma allocated_Cons [simp]:
  "allocated (ev # tr) = (case ev of EvAllocate e \<Rightarrow> [e] | _ \<Rightarrow> []) @ allocated tr"
  by (simp add: allocated_def)

lemma inserted_Cons [simp]:
  "inserted (ev # tr) = (case ev of EvInsert e \<Rightarrow> [e] | _ \<Rightarrow> []) @ inserted tr"
  by (simp add: inserted_def)

lemma allocated_Nil [simp]: "allocated [] = []"
  by (simp add: allocated_def)

lemma inserted_Nil [simp]: "inserted [] = []"
  by (simp add: inserted_def)

subsection \<open>The footprint of an agent state\<close>

lemma agentInv_footprint:
  "agentInv s =
     ((\<forall>e \<in> set (map epoch (records (table s))). e \<le> lastIssued (table s)) \<and>
      distinct (map epoch (records (table s))) \<and>
      sorted_wrt (<) (allocated (trace s)) \<and>
      (\<forall>e \<in> set (allocated (trace s)). e \<le> lastIssued (table s)) \<and>
      sorted_wrt (<) (inserted (trace s)) \<and>
      (\<forall>e \<in> set (inserted (trace s)). e \<le> lastIssued (table s)) \<and>
      set (map epoch (records (table s))) \<subseteq> set (inserted (trace s)))"
  by (simp add: agentInv_def)

lemma agentInv_same_footprint:
  assumes "agentInv s"
      and "map epoch (records (table s')) = map epoch (records (table s))"
      and "lastIssued (table s') = lastIssued (table s)"
      and "allocated (trace s') = allocated (trace s)"
      and "inserted (trace s') = inserted (trace s)"
  shows "agentInv s'"
  using assms unfolding agentInv_footprint by simp

subsection \<open>Emitting and transitions\<close>

lemma emit_simps [simp]:
  "table (emit s evs) = table s"
  "current (emit s evs) = current s"
  "currentFingerprint (emit s evs) = currentFingerprint s"
  "disk (emit s evs) = disk s"
  "fatal (emit s evs) = fatal s"
  "trace (emit s evs) = (if fatal s then trace s else trace s @ evs)"
  by (simp_all add: emit_def)

lemma Transition_epochs:
  "Transition t e st = Some t' \<Longrightarrow>
     map epoch (records t') = map epoch (records t) \<and> lastIssued t' = lastIssued t"
  by (auto simp: Transition_def split: option.splits if_splits)

lemma transition_simps [simp]:
  "lastIssued (table (transition s e st)) = lastIssued (table s)"
  "map epoch (records (table (transition s e st))) = map epoch (records (table s))"
  "current (transition s e st) = current s"
  "currentFingerprint (transition s e st) = currentFingerprint s"
  "disk (transition s e st) = disk s"
  by (auto simp: transition_def dest: Transition_epochs split: option.splits)

lemma transition_fatal [simp]: "fatal s \<Longrightarrow> transition s e st = s"
  by (simp add: transition_def)

lemma transition_trace:
  "trace (transition s e st) = trace s \<or>
   trace (transition s e st) = trace s @ [EvFatal] \<or>
   trace (transition s e st) = trace s @ [EvTransition e st]"
  by (simp add: transition_def split: option.splits)

lemma transition_allocated [simp]:
  "allocated (trace (transition s e st)) = allocated (trace s)"
  using transition_trace[of s e st] by auto

lemma transition_inserted [simp]:
  "inserted (trace (transition s e st)) = inserted (trace s)"
  using transition_trace[of s e st] by auto

lemma agentInv_transition: "agentInv s \<Longrightarrow> agentInv (transition s e st)"
  by (erule agentInv_same_footprint) simp_all

lemma agentInv_emit:
  "agentInv s \<Longrightarrow> allocated evs = [] \<Longrightarrow> inserted evs = [] \<Longrightarrow> agentInv (emit s evs)"
  by (erule agentInv_same_footprint) simp_all

lemma supersede_footprint:
  "map epoch (records (table (supersede s e))) = map epoch (records (table s)) \<and>
   lastIssued (table (supersede s e)) = lastIssued (table s) \<and>
   allocated (trace (supersede s e)) = allocated (trace s) \<and>
   inserted (trace (supersede s e)) = inserted (trace s) \<and>
   current (supersede s e) = current s \<and>
   currentFingerprint (supersede s e) = currentFingerprint s \<and>
   disk (supersede s e) = disk s"
  unfolding supersede_def
  by (rule fold_invariant[where P = "\<lambda>a. map epoch (records (table a)) = map epoch (records (table s)) \<and>
   lastIssued (table a) = lastIssued (table s) \<and>
   allocated (trace a) = allocated (trace s) \<and>
   inserted (trace a) = inserted (trace s) \<and>
   current a = current s \<and>
   currentFingerprint a = currentFingerprint s \<and>
   disk a = disk s"]) simp_all

lemma agentInv_supersede: "agentInv s \<Longrightarrow> agentInv (supersede s e)"
  by (erule agentInv_same_footprint) (simp_all add: supersede_footprint)

lemma map_epoch_setproc [simp]:
  "map epoch (map (\<lambda>r. if epoch r = e then r\<lparr>proc := x\<rparr> else r) rs) = map epoch rs"
  by (induction rs) auto

lemma find_epoch_distinct:
  "distinct (map epoch rs) \<Longrightarrow> r \<in> set rs \<Longrightarrow> find (\<lambda>x. epoch x = epoch r) rs = Some r"
  by (induction rs) (auto simp: rev_image_eqI)

lemma Transition_running_draining:
  assumes "distinct (map epoch (records t))" and "r \<in> set (records t)" and "status r = Running"
  shows "Transition t (epoch r) Draining =
           Some (t\<lparr>records := map (\<lambda>x. if epoch x = epoch r then x\<lparr>status := Draining\<rparr> else x)
                                   (records t)\<rparr>)"
  using assms by (simp add: Transition_def find_epoch_distinct)

lemma supersede_fold_not_fatal:
  "distinct (map epoch (records (table s))) \<Longrightarrow> \<not> fatal s \<Longrightarrow> distinct ps \<Longrightarrow>
   \<forall>p \<in> set ps. \<exists>r \<in> set (records (table s)). epoch r = p \<and> status r = Running \<Longrightarrow>
   \<not> fatal (fold (\<lambda>p s. emit (transition s p Draining) [EvStop p]) ps s)"
proof (induction ps arbitrary: s)
  case Nil
  then show ?case by simp
next
  case (Cons p ps)
  from Cons.prems(4) obtain r where r: "r \<in> set (records (table s))" "epoch r = p" "status r = Running"
    by auto
  let ?t = "(table s)\<lparr>records := map (\<lambda>x. if epoch x = p then x\<lparr>status := Draining\<rparr> else x)
                                       (records (table s))\<rparr>"
  let ?s = "transition s p Draining"
  have tr: "Transition (table s) p Draining = Some ?t"
    using Transition_running_draining[OF Cons.prems(1) r(1) r(3)] r(2) by simp
  with Cons.prems(2) have s': "?s = s\<lparr>table := ?t, trace := trace s @ [EvTransition p Draining]\<rparr>"
    by (simp add: transition_def)
  have 1: "distinct (map epoch (records (table (emit ?s [EvStop p]))))"
    using Cons.prems(1) by simp
  have 2: "\<not> fatal (emit ?s [EvStop p])"
    using Cons.prems(2) s' by simp
  have 3: "distinct ps" using Cons.prems(3) by simp
  have 4: "\<forall>q \<in> set ps. \<exists>r \<in> set (records (table (emit ?s [EvStop p]))).
             epoch r = q \<and> status r = Running"
  proof
    fix q assume q: "q \<in> set ps"
    with Cons.prems(3) have "q \<noteq> p" by auto
    from q Cons.prems(4) obtain r' where
      "r' \<in> set (records (table s))" "epoch r' = q" "status r' = Running" by auto
    with \<open>q \<noteq> p\<close> show "\<exists>r \<in> set (records (table (emit ?s [EvStop p]))).
             epoch r = q \<and> status r = Running"
      unfolding s' by (auto intro!: bexI[of _ r'])
  qed
  from Cons.IH[OF 1 2 3 4] show ?case by simp
qed

lemma supersede_not_fatal:
  assumes "distinct (map epoch (records (table s)))" and "\<not> fatal s"
  shows "\<not> fatal (supersede s e)"
  unfolding supersede_def
proof (rule supersede_fold_not_fatal[OF assms])
  show "distinct (map epoch (filter (\<lambda>r. status r = Running \<and> epoch r < e) (records (table s))))"
    using assms(1) by (rule distinct_map_filter)
  show "\<forall>p \<in> set (map epoch (filter (\<lambda>r. status r = Running \<and> epoch r < e) (records (table s)))).
          \<exists>r \<in> set (records (table s)). epoch r = p \<and> status r = Running"
    by auto
qed

text \<open>The state after allocation, materialization and insertion.\<close>

lemma applyArtifact_fatal [simp]: "fatal s \<Longrightarrow> applyArtifact s pl fp w st = s"
  by (simp add: applyArtifact_def)

lemma applyArtifact_write_failed:
  "\<not> fatal s \<Longrightarrow>
   applyArtifact s pl fp False st =
     s\<lparr>table := (table s)\<lparr>lastIssued := lastIssued (table s) + 1\<rparr>,
       trace := trace s @ [EvAllocate (lastIssued (table s) + 1), EvRetry]\<rparr>"
  by (simp add: applyArtifact_def Allocate_def Let_def emit_def)

lemma applyArtifact_written:
  "\<not> fatal s \<Longrightarrow>
   applyArtifact s pl fp True st =
     (let e = lastIssued (table s) + 1;
          path = ''envoy-rev'' @ itoa e @ ''.json'';
          s3 = s\<lparr>disk := disk s @ [path],
                  trace := trace s @ [EvAllocate e, EvMaterialize e path, EvInsert e],
                  table := (table s)\<lparr>lastIssued := e,
                     records := records (table s) @
                       [\<lparr>epoch = e,
                         artifact = \<lparr>payload = pl, fingerprint = fp, Artifact_path = path\<rparr>,
                         proc = None, status = Starting\<rparr>]\<rparr>\<rparr>
      in if \<not> st then emit (transition s3 e (Failed ''spawn'')) [EvRetry]
         else
           (let s4 = s3\<lparr>trace := trace s3 @ [EvStart e],
                        table := (table s3)\<lparr>records :=
                           map (\<lambda>r. if epoch r = e then r\<lparr>proc := Some e\<rparr> else r)
                               (records (table s3))\<rparr>\<rparr>;
                s6 = supersede (transition s4 e Running) e
            in if fatal s6 then s6
               else s6\<lparr>current := Some e, currentFingerprint := Some fp\<rparr>))"
  by (simp add: applyArtifact_def Allocate_def Insert_def Let_def emit_def)

lemma agentInv_inserted:
  assumes "agentInv s"
  shows "agentInv (s\<lparr>disk := d,
                  trace := trace s @ [EvAllocate (lastIssued (table s) + 1),
                                      EvMaterialize (lastIssued (table s) + 1) path,
                                      EvInsert (lastIssued (table s) + 1)],
                  table := (table s)\<lparr>lastIssued := lastIssued (table s) + 1,
                     records := records (table s) @
                       [\<lparr>epoch = lastIssued (table s) + 1, artifact = a, proc = None,
                         status = Starting\<rparr>]\<rparr>\<rparr>)"
  using assms unfolding agentInv_def
  by (auto simp: sorted_wrt_append)

lemma agentInv_applyArtifact:
  assumes "agentInv s"
  shows "agentInv (applyArtifact s pl fp w st)"
proof (cases "fatal s")
  case True
  with assms show ?thesis by simp
next
  case nf: False
  show ?thesis
  proof (cases w)
    case False
    have "agentInv (s\<lparr>table := (table s)\<lparr>lastIssued := lastIssued (table s) + 1\<rparr>,
       trace := trace s @ [EvAllocate (lastIssued (table s) + 1), EvRetry]\<rparr>)"
      using assms unfolding agentInv_def by (auto simp: sorted_wrt_append)
    with False nf show ?thesis by (simp add: applyArtifact_write_failed)
  next
    case True
    then have w: "w = True" by simp
    let ?e = "lastIssued (table s) + 1"
    let ?path = "''envoy-rev'' @ itoa ?e @ ''.json''"
    let ?s3 = "s\<lparr>disk := disk s @ [?path],
                  trace := trace s @ [EvAllocate ?e, EvMaterialize ?e ?path, EvInsert ?e],
                  table := (table s)\<lparr>lastIssued := ?e,
                     records := records (table s) @
                       [\<lparr>epoch = ?e,
                         artifact = \<lparr>payload = pl, fingerprint = fp, Artifact_path = ?path\<rparr>,
                         proc = None, status = Starting\<rparr>]\<rparr>\<rparr>"
    let ?s4 = "?s3\<lparr>trace := trace ?s3 @ [EvStart ?e],
                        table := (table ?s3)\<lparr>records :=
                           map (\<lambda>r. if epoch r = ?e then r\<lparr>proc := Some ?e\<rparr> else r)
                               (records (table ?s3))\<rparr>\<rparr>"
    let ?s6 = "supersede (transition ?s4 ?e Running) ?e"
    have inv3: "agentInv ?s3" by (rule agentInv_inserted[OF assms])
    have inv4: "agentInv ?s4" by (rule agentInv_same_footprint[OF inv3]) simp_all
    have inv6: "agentInv ?s6" by (rule agentInv_supersede[OF agentInv_transition[OF inv4]])
    have inv7: "agentInv (?s6\<lparr>current := Some ?e, currentFingerprint := Some fp\<rparr>)"
      by (rule agentInv_same_footprint[OF inv6]) simp_all
    have invf: "agentInv (emit (transition ?s3 ?e (Failed ''spawn'')) [EvRetry])"
      by (rule agentInv_emit[OF agentInv_transition[OF inv3]]) simp_all
    show ?thesis
      unfolding w applyArtifact_written[OF nf] Let_def
      using inv6 inv7 invf by (simp only: if_split) blast
  qed
qed

lemma agentInv_reconcile: "agentInv s \<Longrightarrow> agentInv (reconcile render s env w st)"
  by (auto simp: reconcile_def Let_def intro!: agentInv_emit agentInv_applyArtifact
           split: sum.splits RenderError.splits)

lemma agentInv_unlinkArtifact: "agentInv s \<Longrightarrow> agentInv (unlinkArtifact s e)"
  by (auto simp: unlinkArtifact_def elim!: agentInv_same_footprint split: option.splits)

lemma agentInv_prune:
  assumes "agentInv s"
  shows "agentInv (s\<lparr>table := Prune (table s) d\<rparr>)"
proof -
  have "set (map epoch (filter P (records (table s)))) \<subseteq> set (map epoch (records (table s)))" for P
    by auto
  moreover have "distinct (map epoch (filter P (records (table s))))" for P
    using assms by (simp add: agentInv_def distinct_map_filter)
  ultimately show ?thesis
    using assms unfolding agentInv_def Prune_def by (simp add: subset_iff)
qed

lemma agentInv_no_current:
  "agentInv s \<Longrightarrow> agentInv (s\<lparr>current := c, currentFingerprint := f\<rparr>)"
  by (erule agentInv_same_footprint) simp_all

lemma agentInv_handleExit:
  "agentInv s \<Longrightarrow> agentInv (handleExit s e code signal early w st)"
  by (auto simp: handleExit_def Let_def
           intro!: agentInv_emit agentInv_applyArtifact agentInv_transition agentInv_prune
                   agentInv_unlinkArtifact agentInv_no_current
           split: option.splits)

lemma agentInv_step: "agentInv s \<Longrightarrow> agentInv (step render s i)"
  by (cases i) (simp_all add: agentInv_reconcile agentInv_handleExit)

lemma agentInv_init: "agentInv initAgent"
  by (simp add: agentInv_def initAgent_def emptyTable_def)

lemma agentInv_run: "agentInv (run render inputs)"
  unfolding run_def
  by (rule fold_invariant[where P = agentInv]) (simp_all add: agentInv_init agentInv_step)


text \<open>
  Claim C3. \<^verbatim>\<open>Allocate\<close> returns \<^verbatim>\<open>lastIssued+1\<close> and updates
  \<^verbatim>\<open>lastIssued\<close>. In every execution of the agent, whatever the inputs and
  whatever fails, the epochs allocated increase strictly along the trace, the
  epochs for which a record is inserted increase strictly and so are never
  repeated, the records of the table have pairwise different epochs, and each
  of them has been inserted under its epoch.
\<close>

theorem epochs_strictly_increasing:
  "Allocate t = (lastIssued t + 1, t\<lparr>lastIssued := lastIssued t + 1\<rparr>) \<and>
   sorted_wrt (<) (allocated (trace (run render inputs))) \<and>
   sorted_wrt (<) (inserted (trace (run render inputs))) \<and>
   distinct (inserted (trace (run render inputs))) \<and>
   distinct (map epoch (records (table (run render inputs)))) \<and>
   set (map epoch (records (table (run render inputs))))
     \<subseteq> set (inserted (trace (run render inputs)))"
proof -
  have inv: "agentInv (run render inputs)" by (rule agentInv_run)
  have "distinct (inserted (trace (run render inputs)))"
    using inv strict_sorted_iff[of "inserted (trace (run render inputs))"]
    by (simp add: agentInv_def)
  with inv show ?thesis by (simp add: agentInv_def Allocate_def)
qed

theorem epochs_strictly_increasing_witness:
  "allocated (trace (run exampleRender
      [ReconcilePass ''a'' True True, ReconcilePass ''b'' False True,
       ReconcilePass ''b'' True False, ReconcilePass ''b'' True True,
       ExitEvent 3 1 0 False True True])) = [0, 1, 2, 3, 4] \<and>
   inserted (trace (run exampleRender
      [ReconcilePass ''a'' True True, ReconcilePass ''b'' False True,
       ReconcilePass ''b'' True False, ReconcilePass ''b'' True True,
       ExitEvent 3 1 0 False True True])) = [0, 2, 3, 4] \<and>
   map epoch (records (table (run exampleRender
      [ReconcilePass ''a'' True True, ReconcilePass ''b'' False True,
       ReconcilePass ''b'' True False, ReconcilePass ''b'' True True,
       ExitEvent 3 1 0 False True True]))) = [0, 2, 3, 4]"
proof -
  have ev: "allocated (trace (run exampleRender
      [ReconcilePass ''a'' True True, ReconcilePass ''b'' False True,
       ReconcilePass ''b'' True False, ReconcilePass ''b'' True True,
       ExitEvent 3 1 0 False True True])) = [0, 1, 2, 3, 4]"
    "inserted (trace (run exampleRender
      [ReconcilePass ''a'' True True, ReconcilePass ''b'' False True,
       ReconcilePass ''b'' True False, ReconcilePass ''b'' True True,
       ExitEvent 3 1 0 False True True])) = [0, 2, 3, 4]"
    "map epoch (records (table (run exampleRender
      [ReconcilePass ''a'' True True, ReconcilePass ''b'' False True,
       ReconcilePass ''b'' True False, ReconcilePass ''b'' True True,
       ExitEvent 3 1 0 False True True]))) = [0, 2, 3, 4]"
    by code_simp+
  from epochs_strictly_increasing [of emptyTable exampleRender
      "[ReconcilePass ''a'' True True, ReconcilePass ''b'' False True,
        ReconcilePass ''b'' True False, ReconcilePass ''b'' True True,
        ExitEvent 3 1 0 False True True]"] ev
  show ?thesis by simp
qed

lemma find_inserted:
  "\<forall>r \<in> set rs. epoch r \<noteq> epoch n \<Longrightarrow>
   find (\<lambda>r. epoch r = epoch n)
        (map (\<lambda>r. if epoch r = epoch n then r\<lparr>proc := x\<rparr> else r) (rs @ [n]))
     = Some (n\<lparr>proc := x\<rparr>)"
  by (induction rs) auto

lemma applyArtifact_success:
  assumes inv: "agentInv s" and nf: "\<not> fatal s"
  shows "\<not> fatal (applyArtifact s pl fp True True) \<and>
         current (applyArtifact s pl fp True True) = Some (lastIssued (table s) + 1) \<and>
         currentFingerprint (applyArtifact s pl fp True True) = Some fp \<and>
         lastIssued (table (applyArtifact s pl fp True True)) = lastIssued (table s) + 1 \<and>
         allocated (trace (applyArtifact s pl fp True True))
           = allocated (trace s) @ [lastIssued (table s) + 1]"
proof -
  let ?e = "lastIssued (table s) + 1"
  let ?path = "''envoy-rev'' @ itoa ?e @ ''.json''"
  let ?n = "\<lparr>epoch = ?e,
             artifact = \<lparr>payload = pl, fingerprint = fp, Artifact_path = ?path\<rparr>,
             proc = None, status = Starting\<rparr>"
  let ?s3 = "s\<lparr>disk := disk s @ [?path],
                trace := trace s @ [EvAllocate ?e, EvMaterialize ?e ?path, EvInsert ?e],
                table := (table s)\<lparr>lastIssued := ?e, records := records (table s) @ [?n]\<rparr>\<rparr>"
  let ?s4 = "?s3\<lparr>trace := trace ?s3 @ [EvStart ?e],
                  table := (table ?s3)\<lparr>records :=
                     map (\<lambda>r. if epoch r = ?e then r\<lparr>proc := Some ?e\<rparr> else r)
                         (records (table ?s3))\<rparr>\<rparr>"
  let ?s5 = "transition ?s4 ?e Running"
  let ?s6 = "supersede ?s5 ?e"
  have inv3: "agentInv ?s3" by (rule agentInv_inserted[OF inv])
  have inv4: "agentInv ?s4" by (rule agentInv_same_footprint[OF inv3]) simp_all
  have inv5: "agentInv ?s5" by (rule agentInv_transition[OF inv4])
  have old: "\<forall>r \<in> set (records (table s)). epoch r \<noteq> epoch ?n"
    using inv by (auto simp: agentInv_def)
  have found: "find (\<lambda>r. epoch r = ?e) (records (table ?s4)) = Some (?n\<lparr>proc := Some ?e\<rparr>)"
    using find_inserted[OF old, of "Some ?e"] by simp
  have nf5: "\<not> fatal ?s5"
    using nf found by (simp add: transition_def Transition_def)
  have tr5: "trace ?s5 = trace ?s4 @ [EvTransition ?e Running]"
    using nf found by (simp add: transition_def Transition_def)
  have nf6: "\<not> fatal ?s6"
    using inv5 nf5 by (intro supersede_not_fatal) (simp_all add: agentInv_def)
  have res: "applyArtifact s pl fp True True
               = ?s6\<lparr>current := Some ?e, currentFingerprint := Some fp\<rparr>"
    using nf nf6 by (simp add: applyArtifact_written Let_def)
  have li: "lastIssued (table ?s6) = ?e"
    by (simp add: supersede_footprint)
  have al: "allocated (trace ?s6) = allocated (trace s) @ [?e]"
    by (simp add: supersede_footprint tr5)
  show ?thesis
    unfolding res using nf6 li al by simp
qed

lemma reconcile_same_fingerprint:
  assumes "render env = Inr (pl, fp)" and "\<not> fatal s" and "currentFingerprint s = Some fp"
  shows "reconcile render s env w st = s\<lparr>trace := trace s @ [EvRender]\<rparr>"
  using assms by (simp add: reconcile_def Let_def emit_def)

lemma reconcile_new_fingerprint:
  assumes "render env = Inr (pl, fp)" and "\<not> fatal s" and "currentFingerprint s \<noteq> Some fp"
  shows "reconcile render s env w st
           = applyArtifact (s\<lparr>trace := trace s @ [EvRender]\<rparr>) pl fp w st"
proof -
  have e: "emit s [EvRender] = s\<lparr>trace := trace s @ [EvRender]\<rparr>"
    using assms(2) by (simp add: emit_def)
  have "reconcile render s env w st = applyArtifact (emit s [EvRender]) pl fp w st"
    using assms by (simp add: reconcile_def Let_def)
  then show ?thesis by (simp only: e)
qed


text \<open>
  Claim C4. In every execution, for an environment that the generator renders
  to the fingerprint \<open>fp\<close>: a pass that finds \<open>fp\<close> equal to the current
  fingerprint records its call of the generator and changes nothing else, so
  it allocates no epoch. A pass that finds another fingerprint and whose
  materialization and start succeed allocates exactly one epoch, the next one,
  and a second pass on the same environment right after it is such a no-op:
  of the two calls of the generator, exactly one has led to a new epoch.
\<close>

theorem reconcile_idempotent:
  assumes r: "render env = Inr (pl, fp)"
  shows "let s = run render inputs;
             s1 = reconcile render s env writeOk startOk;
             s2 = reconcile render s1 env writeOk' startOk'
         in (\<not> fatal s \<and> currentFingerprint s = Some fp \<longrightarrow>
               s1 = s\<lparr>trace := trace s @ [EvRender]\<rparr>) \<and>
            (\<not> fatal s \<and> currentFingerprint s \<noteq> Some fp \<and> writeOk \<and> startOk \<longrightarrow>
               \<not> fatal s1 \<and>
               allocated (trace s1) = allocated (trace s) @ [lastIssued (table s) + 1] \<and>
               s2 = s1\<lparr>trace := trace s1 @ [EvRender]\<rparr>)"
proof -
  let ?start = "run render inputs"
  let ?rendered = "?start\<lparr>trace := trace ?start @ [EvRender]\<rparr>"
  let ?first = "reconcile render ?start env True True"
  have same: "reconcile render ?start env writeOk startOk = ?rendered"
    if "\<not> fatal ?start" and "currentFingerprint ?start = Some fp"
    using r that by (rule reconcile_same_fingerprint)
  have new: "\<not> fatal ?first \<and>
             allocated (trace ?first) = allocated (trace ?start) @ [lastIssued (table ?start) + 1] \<and>
             reconcile render ?first env writeOk' startOk' = ?first\<lparr>trace := trace ?first @ [EvRender]\<rparr>"
    if nf: "\<not> fatal ?start" and fpn: "currentFingerprint ?start \<noteq> Some fp"
  proof -
    have inv0: "agentInv ?rendered"
      by (rule agentInv_same_footprint[OF agentInv_run[of render inputs]]) simp_all
    have nf0: "\<not> fatal ?rendered" using nf by simp
    have s1: "?first = applyArtifact ?rendered pl fp True True"
      using r nf fpn by (rule reconcile_new_fingerprint)
    note ok = applyArtifact_success[OF inv0 nf0, of pl fp]
    have "reconcile render ?first env writeOk' startOk' = ?first\<lparr>trace := trace ?first @ [EvRender]\<rparr>"
      using r ok unfolding s1 by (intro reconcile_same_fingerprint) simp_all
    with ok show ?thesis unfolding s1 by simp
  qed
  show ?thesis
    unfolding Let_def
  proof (intro conjI impI)
    assume "\<not> fatal ?start \<and> currentFingerprint ?start = Some fp"
    then show "reconcile render ?start env writeOk startOk = ?rendered"
      using same by blast
  next
    assume a: "\<not> fatal ?start \<and> currentFingerprint ?start \<noteq> Some fp \<and> writeOk \<and> startOk"
    then have w: "writeOk = True" "startOk = True" by simp_all
    from a new show "\<not> fatal (reconcile render ?start env writeOk startOk)"
      unfolding w by blast
    from a new show "allocated (trace (reconcile render ?start env writeOk startOk))
                       = allocated (trace ?start) @ [lastIssued (table ?start) + 1]"
      unfolding w by blast
    from a new show "reconcile render (reconcile render ?start env writeOk startOk) env writeOk' startOk'
            = (reconcile render ?start env writeOk startOk)
                \<lparr>trace := trace (reconcile render ?start env writeOk startOk) @ [EvRender]\<rparr>"
      unfolding w by blast
  qed
qed

theorem reconcile_idempotent_witness:
  "exampleRender ''a'' = Inr (''a'', ''a'') \<and>
   currentFingerprint (run exampleRender []) = None \<and>
   allocated (trace (reconcile exampleRender (run exampleRender []) ''a'' True True)) = [0] \<and>
   allocated (trace (reconcile exampleRender
      (reconcile exampleRender (run exampleRender []) ''a'' True True) ''a'' True True)) = [0] \<and>
   currentFingerprint (run exampleRender [ReconcilePass ''a'' True True]) = Some ''a'' \<and>
   table (reconcile exampleRender (run exampleRender [ReconcilePass ''a'' True True])
            ''a'' True True)
     = table (run exampleRender [ReconcilePass ''a'' True True])"
proof -
  have r: "exampleRender ''a'' = Inr (''a'', ''a'')"
    by (simp add: exampleRender_def)
  have ev: "currentFingerprint (run exampleRender []) = None"
    "allocated (trace (reconcile exampleRender (run exampleRender []) ''a'' True True)) = [0]"
    "allocated (trace (reconcile exampleRender
      (reconcile exampleRender (run exampleRender []) ''a'' True True) ''a'' True True)) = [0]"
    "currentFingerprint (run exampleRender [ReconcilePass ''a'' True True]) = Some ''a''"
    "table (reconcile exampleRender (run exampleRender [ReconcilePass ''a'' True True])
            ''a'' True True)
     = table (run exampleRender [ReconcilePass ''a'' True True])"
    by code_simp+
  from reconcile_idempotent [where render = exampleRender and env = "''a''" and pl = "''a''"
         and fp = "''a''" and inputs = "[]" and writeOk = True and startOk = True, OF r]
       reconcile_idempotent [where render = exampleRender and env = "''a''" and pl = "''a''"
         and fp = "''a''" and inputs = "[ReconcilePass ''a'' True True]" and writeOk = True
         and startOk = True, OF r]
       r ev
  show ?thesis by simp
qed

subsection \<open>Startup failures\<close>

text \<open>
  Scenario 5 of section 8 on the model: every spawn exits with code 2 within
  the startup window, and the environment does not change. Each retry allocates
  the next epoch; the epochs 0, 1 and 2 are allocated and end in
  \<^verbatim>\<open>Failed\<close>.
\<close>

lemma startup_failures_allocate:
  "allocated (trace (run exampleRender
      [ReconcilePass ''a'' True True, ExitEvent 0 2 0 True True True,
       ReconcilePass ''a'' True True, ExitEvent 1 2 0 True True True,
       ReconcilePass ''a'' True True, ExitEvent 2 2 0 True True True])) = [0, 1, 2] \<and>
   map (\<lambda>r. (epoch r, status r)) (records (table (run exampleRender
      [ReconcilePass ''a'' True True, ExitEvent 0 2 0 True True True,
       ReconcilePass ''a'' True True, ExitEvent 1 2 0 True True True,
       ReconcilePass ''a'' True True, ExitEvent 2 2 0 True True True])))
     = [(0, Failed ''startup''), (1, Failed ''startup''), (2, Failed ''startup'')] \<and>
   current (run exampleRender
      [ReconcilePass ''a'' True True, ExitEvent 0 2 0 True True True,
       ReconcilePass ''a'' True True, ExitEvent 1 2 0 True True True,
       ReconcilePass ''a'' True True, ExitEvent 2 2 0 True True True]) = None \<and>
   \<not> fatal (run exampleRender
      [ReconcilePass ''a'' True True, ExitEvent 0 2 0 True True True,
       ReconcilePass ''a'' True True, ExitEvent 1 2 0 True True True,
       ReconcilePass ''a'' True True, ExitEvent 2 2 0 True True True])"
  by (intro conjI; code_simp)

subsection \<open>Draining while a later epoch is running\<close>

lemma transitions_append [simp]: "transitions (tr @ evs) = transitions tr @ transitions evs"
  by (simp add: transitions_def)

lemma runningAfter_snoc:
  "runningAfter (tr @ [ev]) =
     (case ev of
        EvTransition e st \<Rightarrow>
          (if st = Running then e # removeAll e (runningAfter tr)
           else removeAll e (runningAfter tr))
      | _ \<Rightarrow> runningAfter tr)"
  by (cases ev) (simp_all add: runningAfter_def)

text \<open>
  \<open>runningAfter\<close> holds the epochs whose last transition is to
  \<^verbatim>\<open>Running\<close>.
\<close>

lemma runningAfter_last_transition:
  "e \<in> set (runningAfter tr) \<longleftrightarrow>
     filter (\<lambda>p. fst p = e) (transitions tr) \<noteq> [] \<and>
     snd (last (filter (\<lambda>p. fst p = e) (transitions tr))) = Running"
proof (induction tr rule: rev_induct)
  case Nil
  show ?case by (simp add: runningAfter_def transitions_def)
next
  case (snoc ev tr)
  show ?case
  proof (cases ev)
    case (EvTransition e' st)
    then show ?thesis
      using snoc by (auto simp: runningAfter_snoc transitions_def)
  qed (use snoc in \<open>simp_all add: runningAfter_snoc transitions_def\<close>)
qed







text \<open>
  A trace with a gap is not hitless: epoch 1 has failed when epoch 0 is
  transitioned to \<^verbatim>\<open>Draining\<close>.
\<close>

lemma hitless_excludes_gap:
  "\<not> hitless [EvTransition 0 Running, EvTransition 1 Running,
              EvTransition 1 (Failed ''startup''), EvTransition 0 Draining, EvStop 0]"
  by (simp add: hitless_def runningAfter_def)
























end
